theory Spec2Isabelle
  imports Complex_Main
begin

section \<open>Python values shared by the modules\<close>

text \<open>
  Python floats are modelled as real numbers with exact arithmetic, except for \<open>round\<close>,
  which is a parameter of the functions that call it (see below); strings are
  \<^typ>\<open>string\<close> (one \<^typ>\<open>char\<close> per character, the Latin-1 range); every exception the
  modelled code can raise is a value of \<open>error\<close>, and a function that can raise returns
  \<open>error + 'a\<close> with \<open>Inl\<close> for the raise.
\<close>

datatype error =
    KeyError string
  | IndexError
  | ValueError
  | TypeError
  | ZeroDivisionError
  | ModuleNotFoundError
  | OverflowError
  | External string

definition bind_err :: "error + 'a \<Rightarrow> ('a \<Rightarrow> error + 'b) \<Rightarrow> error + 'b" where
  "bind_err m f = (case m of Inl e \<Rightarrow> Inl e | Inr v \<Rightarrow> f v)"

text \<open>A division whose divisor the code has to keep away from zero: Python raises
  \<open>ZeroDivisionError\<close> there and numpy yields \<open>inf\<close> or \<open>nan\<close>; the model reports either as
  this error, so that a result \<open>Inr x\<close> is always a finite number obtained without dividing
  by zero.\<close>

definition checked_div :: "real \<Rightarrow> real \<Rightarrow> error + real" where
  "checked_div x y = (if y = 0 then Inl ZeroDivisionError else Inr (x / y))"

text \<open>
  \<open>round(x, n)\<close>. The code rounds a float, and a float computation can leave its result on
  either side of the exact value: where the exact value lies half way between two
  multiples of \<open>10^-n\<close>, or very near to it, the code's result is one of the two
  neighbouring multiples, and exact arithmetic cannot say which. So every function that
  calls \<open>round\<close> takes the rounding as its first parameter \<open>rnd\<close>, and the theorems
  assume of it only \<open>neighbour_rounding\<close>: the result is a multiple of \<open>10^-n\<close> less than
  one unit away from the exact value, that is one of the two multiples around it, and the
  value itself when it is a multiple.
\<close>

type_synonym rounding = "real \<Rightarrow> nat \<Rightarrow> real"

definition neighbour_rounding :: "rounding \<Rightarrow> bool" where
  "neighbour_rounding rnd \<longleftrightarrow>
     (\<forall>x n. (\<exists>k::int. rnd x n = of_int k / 10 ^ n) \<and> \<bar>rnd x n - x\<bar> < 1 / 10 ^ n)"

text \<open>One such rounding, for evaluating concrete inputs: the exact value rounded to the
  nearest multiple, a tie going to the even one. The concrete inputs below are chosen so
  that every rounded value is itself a multiple, where all such roundings agree.\<close>

definition round_half_even :: "real \<Rightarrow> int" where
  "round_half_even x =
     (let f = \<lfloor>x\<rfloor>; d = x - of_int f
      in if d < 1 / 2 then f
         else if 1 / 2 < d then f + 1
         else if even f then f else f + 1)"

definition half_even_rounding :: rounding where
  "half_even_rounding x n = of_int (round_half_even (x * 10 ^ n)) / 10 ^ n"

section \<open>tools/ats\_scorer.py\<close>

definition clamp01 :: "real \<Rightarrow> real" where
  "clamp01 x = max 0 (min 1 x)"

type_synonym weights = "(string \<times> real) list"

text \<open>The \<open>weights\<close> dictionary, in insertion order.\<close>

definition default_weights :: weights where
  "default_weights =
     [(''semantic'', 30 / 100), (''skills'', 30 / 100), (''keywords'', 15 / 100),
      (''action_verbs'', 8 / 100), (''experience'', 12 / 100), (''formatting'', - (5 / 100))]"

definition getitem :: "weights \<Rightarrow> string \<Rightarrow> error + real" where
  "getitem w k = (case map_of w k of None \<Rightarrow> Inl (KeyError k) | Some v \<Rightarrow> Inr v)"

definition get_default :: "weights \<Rightarrow> string \<Rightarrow> real \<Rightarrow> real" where
  "get_default w k d = (case map_of w k of None \<Rightarrow> d | Some v \<Rightarrow> v)"

text \<open>\<open>weights["semantic"] * s_sem + ... + weights["experience"] * s_exp\<close>, the keys read
  in this order.\<close>

definition positive_sum :: "weights \<Rightarrow> real \<Rightarrow> real \<Rightarrow> real \<Rightarrow> real \<Rightarrow> real \<Rightarrow> error + real" where
  "positive_sum w s_sem s_ski s_key s_act s_exp =
     bind_err (getitem w ''semantic'') (\<lambda>w_sem.
     bind_err (getitem w ''skills'') (\<lambda>w_ski.
     bind_err (getitem w ''keywords'') (\<lambda>w_key.
     bind_err (getitem w ''action_verbs'') (\<lambda>w_act.
     bind_err (getitem w ''experience'') (\<lambda>w_exp.
       Inr (w_sem * s_sem + w_ski * s_ski + w_key * s_key + w_act * s_act + w_exp * s_exp))))))"

text \<open>\<open>penalty = max(0.0, weights.get("formatting", 0.0) * s_fmt_pen)\<close>\<close>

definition penalty :: "weights \<Rightarrow> real \<Rightarrow> real" where
  "penalty w s_fmt_pen = max 0 (get_default w ''formatting'' 0 * s_fmt_pen)"

text \<open>\<open>raw_score = positive_sum + penalty\<close>\<close>

definition raw_score ::
  "weights \<Rightarrow> real \<Rightarrow> real \<Rightarrow> real \<Rightarrow> real \<Rightarrow> real \<Rightarrow> real \<Rightarrow> error + real" where
  "raw_score w s_sem s_ski s_key s_act s_exp s_fmt_pen =
     bind_err (positive_sum w s_sem s_ski s_key s_act s_exp) (\<lambda>psum.
       Inr (psum + penalty w s_fmt_pen))"

text \<open>\<open>sum(abs(v) for k, v in weights.items() if k != "formatting") or 1\<close>\<close>

definition normaliser :: "weights \<Rightarrow> real" where
  "normaliser w =
     (let s = sum_list (map (\<lambda>(k, v). \<bar>v\<bar>) (filter (\<lambda>(k, v). k \<noteq> ''formatting'') w))
      in if s = 0 then 1 else s)"

text \<open>The lines of \<open>explanations\<close> and \<open>suggestions\<close> are fixed texts around numbers; each is
  kept as a constructor carrying the numbers the text shows.\<close>

datatype explanation =
    Semantic_contributes real real
  | Skill_fit_contributes real real
  | Keyword_density_contributes real real
  | Action_verbs_contribute real real
  | Experience_relevance_contributes real real
  | Formatting_penalty_subtracts real real

datatype suggestion =
    Add_missing_skills
  | Include_more_JD_keywords
  | Use_more_active_verbs
  | Improve_formatting
  | Clarify_years_of_experience

record fused =
  components :: "(string \<times> real) list"
  weights_used :: weights
  final_score :: real
  final_score_norm :: real
  explanations :: "explanation list"
  suggestions :: "suggestion list"

definition fuse_components ::
  "rounding \<Rightarrow> real \<Rightarrow> real \<Rightarrow> real \<Rightarrow> real \<Rightarrow> real \<Rightarrow> real \<Rightarrow> weights option
     \<Rightarrow> error + fused" where
  "fuse_components rnd semantic_score skill_fit_index keyword_density action_verb_ratio
       experience_relevance formatting_penalty weights_arg =
     (let w = (case weights_arg of None \<Rightarrow> default_weights
               | Some w' \<Rightarrow> if w' = [] then default_weights else w');
          s_sem = clamp01 semantic_score;
          s_ski = clamp01 skill_fit_index;
          s_key = clamp01 keyword_density;
          s_act = clamp01 action_verb_ratio;
          s_exp = clamp01 experience_relevance;
          s_fmt_pen = clamp01 formatting_penalty;
          c_sem = rnd (s_sem * 100) 2;
          c_ski = rnd (s_ski * 100) 2;
          c_key = rnd (s_key * 100) 2;
          c_act = rnd (s_act * 100) 2;
          c_exp = rnd (s_exp * 100) 2;
          c_fmt = rnd (s_fmt_pen * 100) 2
      in bind_err (raw_score w s_sem s_ski s_key s_act s_exp s_fmt_pen) (\<lambda>raw.
         let final_norm = clamp01 (raw / normaliser w);
             final_pct = rnd (final_norm * 100) 2
         in bind_err (getitem w ''semantic'') (\<lambda>w_sem.
            bind_err (getitem w ''skills'') (\<lambda>w_ski.
            bind_err (getitem w ''keywords'') (\<lambda>w_key.
            bind_err (getitem w ''action_verbs'') (\<lambda>w_act.
            bind_err (getitem w ''experience'') (\<lambda>w_exp.
              Inr \<lparr> components =
                      [(''semantic'', c_sem), (''skills'', c_ski), (''keyword_density'', c_key),
                       (''action_verb_ratio'', c_act), (''experience_relevance'', c_exp),
                       (''formatting_penalty'', c_fmt)],
                    weights_used = w,
                    final_score = final_pct,
                    final_score_norm = final_norm,
                    explanations =
                      [Semantic_contributes (rnd (w_sem * 100) 1) c_sem,
                       Skill_fit_contributes (rnd (w_ski * 100) 1) c_ski,
                       Keyword_density_contributes (rnd (w_key * 100) 1) c_key,
                       Action_verbs_contribute (rnd (w_act * 100) 1) c_act,
                       Experience_relevance_contributes (rnd (w_exp * 100) 1) c_exp]
                      @ (if get_default w ''formatting'' 0 < 0
                         then [Formatting_penalty_subtracts
                                 \<bar>rnd (get_default w ''formatting'' 0 * 100) 1\<bar> c_fmt]
                         else []),
                    suggestions =
                      (if c_ski < 60 then [Add_missing_skills] else [])
                      @ (if c_key < 50 then [Include_more_JD_keywords] else [])
                      @ (if c_act < 40 then [Use_more_active_verbs] else [])
                      @ (if 50 < c_fmt then [Improve_formatting] else [])
                      @ (if c_exp < 50 then [Clarify_years_of_experience] else []) \<rparr>)))))))"

text \<open>The formula of the specification's section 4.4, kept apart from the code: the five
  weighted positive signals plus the formatting term \<open>-0.05 * formatting\<close>, divided by
  the sum of the positive weights, clamped and taken as a percentage.\<close>

definition spec_final_score :: "real \<Rightarrow> real \<Rightarrow> real \<Rightarrow> real \<Rightarrow> real \<Rightarrow> real \<Rightarrow> real" where
  "spec_final_score sem ski kw act ex fmt =
     100 * clamp01
       ((30 / 100 * clamp01 sem + 30 / 100 * clamp01 ski + 15 / 100 * clamp01 kw
           + 8 / 100 * clamp01 act + 12 / 100 * clamp01 ex + (- (5 / 100)) * clamp01 fmt)
        / (30 / 100 + 30 / 100 + 15 / 100 + 8 / 100 + 12 / 100))"

section \<open>Strings as Python sees them\<close>

text \<open>\<open>str.isspace\<close> on the Latin-1 range: tab, line feed, vertical tab, form feed,
  carriage return, the four separators \<open>0x1c..0x1f\<close>, space, \<open>0x85\<close> and \<open>0xa0\<close>.\<close>

definition is_space :: "char \<Rightarrow> bool" where
  "is_space c \<longleftrightarrow>
     c \<in> set [CHR 0x09, CHR 0x0A, CHR 0x0B, CHR 0x0C, CHR 0x0D, CHR 0x1C, CHR 0x1D,
              CHR 0x1E, CHR 0x1F, CHR 0x20, CHR 0x85, CHR 0xA0]"

definition py_strip :: "string \<Rightarrow> string" where
  "py_strip s = rev (dropWhile is_space (rev (dropWhile is_space s)))"

text \<open>\<open>str.lower\<close>: \<open>A..Z\<close> and the Latin-1 capitals \<open>0xc0..0xde\<close> (but not the
  multiplication sign \<open>0xd7\<close>) move up by 32.\<close>

definition lower_char :: "char \<Rightarrow> char" where
  "lower_char c =
     (let n = (of_char c :: nat)
      in if (65 \<le> n \<and> n \<le> 90) \<or> (192 \<le> n \<and> n \<le> 222 \<and> n \<noteq> 215)
         then char_of (n + 32) else c)"

definition py_lower :: "string \<Rightarrow> string" where
  "py_lower s = map lower_char s"

text \<open>\<open>s.split()\<close>: the maximal runs of characters that are not white space. The first
  argument is the run read so far.\<close>

fun split_ws :: "string \<Rightarrow> string \<Rightarrow> string list" where
  "split_ws cur [] = (if cur = [] then [] else [cur])"
| "split_ws cur (c # cs) =
     (if is_space c then (if cur = [] then split_ws [] cs else cur # split_ws [] cs)
      else split_ws (cur @ [c]) cs)"

definition py_split :: "string \<Rightarrow> string list" where
  "py_split s = split_ws [] s"

section \<open>tools/skill\_comparator.py\<close>

text \<open>The class \<open>[a-z0-9+#\.\- ]\<close> of \<open>_normalize\<close>; every other character is deleted.\<close>

definition kept_char :: "char \<Rightarrow> bool" where
  "kept_char c =
     (let n = (of_char c :: nat)
      in (97 \<le> n \<and> n \<le> 122) \<or> (48 \<le> n \<and> n \<le> 57)
         \<or> c \<in> set [CHR ''+'', CHR ''#'', CHR ''.'', CHR ''-'', CHR '' ''])"

text \<open>\<open>re.sub(r"\\s+", " ", x)\<close>: each maximal run of white space becomes one space. The
  flag says whether the previous character was white space.\<close>

fun collapse_ws :: "bool \<Rightarrow> string \<Rightarrow> string" where
  "collapse_ws in_run [] = []"
| "collapse_ws in_run (c # cs) =
     (if is_space c then (if in_run then collapse_ws True cs else CHR '' '' # collapse_ws True cs)
      else c # collapse_ws False cs)"

definition normalize_skill :: "string \<Rightarrow> string" where
  "normalize_skill x = collapse_ws False (filter kept_char (py_lower (py_strip x)))"

definition simple_token_overlap :: "string \<Rightarrow> string \<Rightarrow> real" where
  "simple_token_overlap a b =
     (let aset = set (py_split (normalize_skill a));
          bset = set (py_split (normalize_skill b))
      in if aset = {} \<or> bset = {} then 0
         else real (card (aset \<inter> bset)) / real (max (card aset) (card bset)))"

text \<open>The overlap ratio in the specification's words (section 4.3): intersection over
  union of the two token sets. It is kept apart from the code's ratio above.\<close>

definition spec_token_overlap :: "string \<Rightarrow> string \<Rightarrow> real" where
  "spec_token_overlap a b =
     (let aset = set (py_split (normalize_skill a));
          bset = set (py_split (normalize_skill b))
      in if aset \<union> bset = {} then 0
         else real (card (aset \<inter> bset)) / real (card (aset \<union> bset)))"

subsection \<open>Embedding vectors\<close>

type_synonym vec = "real list"

text \<open>\<open>np.linalg.norm\<close> and \<open>np.dot\<close> on one-dimensional arrays; \<open>np.dot\<close> raises
  \<open>ValueError\<close> when the lengths differ.\<close>

definition norm_vec :: "vec \<Rightarrow> real" where
  "norm_vec v = sqrt (sum_list (map (\<lambda>x. x * x) v))"

definition dot_vec :: "vec \<Rightarrow> vec \<Rightarrow> error + real" where
  "dot_vec a b =
     (if length a = length b then Inr (sum_list (map (\<lambda>(x, y). x * y) (zip a b)))
      else Inl ValueError)"

text \<open>\<open>_embedding_similarity\<close> has no test for \<open>None\<close>: \<open>np.linalg.norm(None)\<close> raises
  \<open>TypeError\<close>.\<close>

definition embedding_similarity :: "vec option \<Rightarrow> vec option \<Rightarrow> error + real" where
  "embedding_similarity a_emb b_emb =
     (case a_emb of None \<Rightarrow> Inl TypeError
      | Some a \<Rightarrow>
          (case b_emb of None \<Rightarrow> Inl TypeError
           | Some b \<Rightarrow>
               (let denom = norm_vec a * norm_vec b
                in if denom = 0 then Inr 0
                   else bind_err (dot_vec a b) (\<lambda>d. checked_div d denom))))"

subsection \<open>compare\_skills\<close>

record skill_match =
  resume_skill :: string
  jd_skill :: "string option"
  similarity :: real

record missing_skill =
  skill :: string
  suggestion_text :: string

text \<open>\<open>summary\<close> is the text "Matched m of n JD skills."; the record keeps \<open>(m, n)\<close>.\<close>

record skill_comparison =
  skill_fit_index :: real
  match_percentage :: real
  matched_skills :: "skill_match list"
  missing_skills :: "missing_skill list"
  extra_resume_skills :: "string list"
  summary :: "int \<times> nat"

type_synonym embed_fn = "string list \<Rightarrow> error + vec list"

text \<open>The inner loop of Pass 1 over \<open>enumerate(jnorm)\<close>, with \<open>(best_j, best_sim)\<close> as
  its state; the \<open>break\<close> at an exact match ends the recursion.\<close>

fun scan_jd ::
  "string \<Rightarrow> nat set \<Rightarrow> (nat \<times> string) list \<Rightarrow> (nat \<times> string) option \<times> real
     \<Rightarrow> (nat \<times> string) option \<times> real" where
  "scan_jd r matched_j_idx [] best = best"
| "scan_jd r matched_j_idx ((j, jj) # rest) (best_j, best_sim) =
     (if j \<in> matched_j_idx then scan_jd r matched_j_idx rest (best_j, best_sim)
      else
        (let sim = simple_token_overlap r jj;
             best' = (if best_sim < sim then (Some (j, jj), sim) else (best_j, best_sim))
         in if r = jj then (Some (j, jj), 1)
            else scan_jd r matched_j_idx rest best'))"

text \<open>One round of the outer loop of Pass 1 for the resume skill \<open>rskills[i]\<close> and its
  normal form \<open>r\<close>; the state is \<open>(matched, matched_j_idx)\<close>.\<close>

fun pass1_step ::
  "rounding \<Rightarrow> (nat \<times> string) list \<Rightarrow> string \<times> string \<Rightarrow> skill_match list \<times> nat set
     \<Rightarrow> skill_match list \<times> nat set" where
  "pass1_step rnd jn (rskill, r) (matched, matched_j_idx) =
     (case scan_jd r matched_j_idx jn (None, 0) of
        (None, best_sim) \<Rightarrow> (matched, matched_j_idx)
      | (Some (j, jj), best_sim) \<Rightarrow>
          (if 6 / 10 < best_sim
           then (matched @ [\<lparr> resume_skill = rskill, jd_skill = Some jj,
                               similarity = rnd best_sim 3 \<rparr>],
                 insert j matched_j_idx)
           else (matched, matched_j_idx)))"

fun pass1 ::
  "rounding \<Rightarrow> (nat \<times> string) list \<Rightarrow> (string \<times> string) list
     \<Rightarrow> skill_match list \<times> nat set \<Rightarrow> skill_match list \<times> nat set" where
  "pass1 rnd jn [] st = st"
| "pass1 rnd jn (rr # rest) st = pass1 rnd jn rest (pass1_step rnd jn rr st)"

text \<open>Reading \<open>xs[i]\<close> for \<open>i \<ge> 0\<close>, and \<open>xs.index(x)\<close>.\<close>

definition nth_err :: "'a list \<Rightarrow> nat \<Rightarrow> error + 'a" where
  "nth_err xs i = (if i < length xs then Inr (xs ! i) else Inl IndexError)"

fun index_of :: "'a list \<Rightarrow> 'a \<Rightarrow> nat option" where
  "index_of [] x = None"
| "index_of (y # ys) x = (if y = x then Some 0 else map_option Suc (index_of ys x))"

text \<open>The inner loop of Pass 2 over \<open>enumerate(unmatched_j)\<close>. Reading an embedding out
  of range or comparing vectors of different lengths raises.\<close>

fun scan_embeddings ::
  "vec list \<Rightarrow> vec list \<Rightarrow> nat \<Rightarrow> (nat \<times> string) list \<Rightarrow> string option \<times> real
     \<Rightarrow> error + (string option \<times> real)" where
  "scan_embeddings r_embs j_embs i_r [] best = Inr best"
| "scan_embeddings r_embs j_embs i_r ((j_i, j) # rest) (best_j, best_sim) =
     bind_err (nth_err r_embs i_r) (\<lambda>a.
     bind_err (nth_err j_embs j_i) (\<lambda>b.
     bind_err (embedding_similarity (Some a) (Some b)) (\<lambda>sim.
       scan_embeddings r_embs j_embs i_r rest
         (if best_sim < sim then (Some j, sim) else (best_j, best_sim)))))"

text \<open>The outer loop of Pass 2. It runs inside \<open>try ... except Exception\<close>: a raise ends
  the loop and leaves \<open>matched\<close> and \<open>matched_j_idx\<close> as they are at that moment. The
  pair is appended before \<open>jskills.index(best_j)\<close> is evaluated, which raises
  \<open>ValueError\<close> when \<open>best_j\<close> is \<open>None\<close>.\<close>

fun pass2 ::
  "rounding \<Rightarrow> real \<Rightarrow> string list \<Rightarrow> vec list \<Rightarrow> vec list \<Rightarrow> (nat \<times> string) list
     \<Rightarrow> (nat \<times> string) list \<Rightarrow> skill_match list \<times> nat set \<Rightarrow> skill_match list \<times> nat set" where
  "pass2 rnd semantic_threshold jskills r_embs j_embs unmatched_j [] st = st"
| "pass2 rnd semantic_threshold jskills r_embs j_embs unmatched_j ((i_r, r) # rest)
       (matched, matched_j_idx) =
     (case scan_embeddings r_embs j_embs i_r unmatched_j (None, 0) of
        Inl e \<Rightarrow> (matched, matched_j_idx)
      | Inr (best_j, best_sim) \<Rightarrow>
          if semantic_threshold \<le> best_sim
          then
            (let matched' = matched @ [\<lparr> resume_skill = r, jd_skill = best_j,
                                         similarity = rnd best_sim 3 \<rparr>]
             in case best_j of
                  None \<Rightarrow> (matched', matched_j_idx)
                | Some j \<Rightarrow>
                    (case index_of jskills j of
                       None \<Rightarrow> (matched', matched_j_idx)
                     | Some j_index \<Rightarrow>
                         pass2 rnd semantic_threshold jskills r_embs j_embs unmatched_j rest
                           (matched', insert j_index matched_j_idx)))
          else pass2 rnd semantic_threshold jskills r_embs j_embs unmatched_j rest
                 (matched, matched_j_idx))"

text \<open>Lines 64 to 119 of \<open>compare_skills\<close>: both passes, giving the final
  \<open>(matched, matched_j_idx)\<close>. \<open>None\<close> stands for a missing (or falsy) \<open>embed_fn\<close>.\<close>

definition compare_skills_matching ::
  "rounding \<Rightarrow> string list \<Rightarrow> string list \<Rightarrow> embed_fn option \<Rightarrow> real
     \<Rightarrow> skill_match list \<times> nat set" where
  "compare_skills_matching rnd rskills jskills embed_fn semantic_threshold =
     (let rnorm = map normalize_skill rskills;
          jnorm = map normalize_skill jskills;
          st1 = pass1 rnd (enumerate 0 jnorm) (zip rskills rnorm) ([], {})
      in case embed_fn of
           None \<Rightarrow> st1
         | Some ef \<Rightarrow>
             (let unmatched_r =
                    filter (\<lambda>r. list_all (\<lambda>m. resume_skill m \<noteq> r) (fst st1)) rskills;
                  unmatched_j =
                    map snd (filter (\<lambda>(idx, j). idx \<notin> snd st1) (enumerate 0 jskills));
                  cand_texts = unmatched_r @ unmatched_j
              in if cand_texts = [] then st1
                 else
                   (case ef cand_texts of
                      Inl e \<Rightarrow> st1
                    | Inr embs \<Rightarrow>
                        pass2 rnd semantic_threshold jskills
                          (take (length unmatched_r) embs) (drop (length unmatched_r) embs)
                          (enumerate 0 unmatched_j) (enumerate 0 unmatched_r) st1)))"

definition suggestion_for :: "string \<Rightarrow> string" where
  "suggestion_for ms =
     ''Include relevant projects or keywords related to '' @ [CHR 0x27] @ ms @ [CHR 0x27]
       @ '' (e.g., '' @ [CHR 0x27] @ ''Worked with '' @ ms @ '' to ...'' @ [CHR 0x27] @ '')''"

definition compare_skills ::
  "rounding \<Rightarrow> string list \<Rightarrow> string list \<Rightarrow> embed_fn option \<Rightarrow> real \<Rightarrow> skill_comparison" where
  "compare_skills rnd resume_skills jd_skills embed_fn semantic_threshold =
     (let rskills = resume_skills;
          jskills = jd_skills;
          st = compare_skills_matching rnd rskills jskills embed_fn semantic_threshold;
          matched = fst st;
          matched_j_idx = snd st;
          missing = map snd (filter (\<lambda>(idx, j). idx \<notin> matched_j_idx) (enumerate 0 jskills));
          matched_resumes = set (map resume_skill matched);
          extras = filter (\<lambda>r. r \<notin> matched_resumes) rskills;
          match_pct = real_of_int (int (length jskills) - int (length missing))
                        / real (max 1 (length jskills));
          avg_sim = (if matched \<noteq> []
                     then sum_list (map similarity matched) / real (length matched)
                     else 0);
          sfi = 7 / 10 * match_pct + 3 / 10 * avg_sim
      in \<lparr> skill_fit_index = rnd sfi 4,
           match_percentage = rnd (match_pct * 100) 2,
           matched_skills = matched,
           missing_skills = map (\<lambda>ms. \<lparr> skill = ms, suggestion_text = suggestion_for ms \<rparr>) missing,
           extra_resume_skills = extras,
           summary = (int (length jskills) - int (length missing), length jskills) \<rparr>)"

subsection \<open>The invariant of the two passes\<close>

text \<open>Every matched position is a position of the JD list, and the \<open>jd_skill\<close> entries that
  are not \<open>None\<close> are exactly the names at the matched positions.\<close>

definition jd_inv :: "string list \<Rightarrow> skill_match list \<times> nat set \<Rightarrow> bool" where
  "jd_inv names st \<longleftrightarrow>
     snd st \<subseteq> {..<length names}
     \<and> jd_skill ` set (fst st) - {None} = Some ` ((!) names ` snd st)"

section \<open>tools/semantic\_matcher.py\<close>

text \<open>\<open>_cosine\<close>: \<open>0.0\<close> for a missing vector or a zero norm, else the cosine.\<close>

definition cosine :: "vec option \<Rightarrow> vec option \<Rightarrow> error + real" where
  "cosine a b =
     (case a of None \<Rightarrow> Inr 0
      | Some av \<Rightarrow>
          (case b of None \<Rightarrow> Inr 0
           | Some bv \<Rightarrow>
               (let denom = norm_vec av * norm_vec bv
                in if denom = 0 then Inr 0
                   else bind_err (dot_vec av bv) (\<lambda>d. checked_div d denom))))"

text \<open>\<open>re.split(r"\\n{2,}|\\r\\n{2,}", text)\<close>: a cut at two or more line feeds, or at a
  carriage return followed by two or more line feeds. The first argument is the piece read
  so far.\<close>

function split_blank_lines :: "string \<Rightarrow> string \<Rightarrow> string list" where
  "split_blank_lines cur [] = [cur]"
| "split_blank_lines cur (c # cs) =
     (if c = CHR 0x0A \<and> cs \<noteq> [] \<and> hd cs = CHR 0x0A
      then cur # split_blank_lines [] (dropWhile (\<lambda>d. d = CHR 0x0A) cs)
      else if c = CHR 0x0D \<and> take 2 cs = [CHR 0x0A, CHR 0x0A]
      then cur # split_blank_lines [] (dropWhile (\<lambda>d. d = CHR 0x0A) cs)
      else split_blank_lines (cur @ [c]) cs)"
  by pat_completeness auto
termination
  by (relation "measure (\<lambda>(cur, s). length s)")
    (auto simp: le_imp_less_Suc length_dropWhile_le)

text \<open>\<open>re.split(r"[.?!]\\s+", text)\<close>: a cut at a full stop, question mark or exclamation
  mark followed by white space, which is consumed.\<close>

function split_sentences :: "string \<Rightarrow> string \<Rightarrow> string list" where
  "split_sentences cur [] = [cur]"
| "split_sentences cur (c # cs) =
     (if c \<in> set ''.?!'' \<and> cs \<noteq> [] \<and> is_space (hd cs)
      then cur # split_sentences [] (dropWhile is_space cs)
      else split_sentences (cur @ [c]) cs)"
  by pat_completeness auto
termination
  by (relation "measure (\<lambda>(cur, s). length s)")
    (auto simp: le_imp_less_Suc length_dropWhile_le)

fun py_join :: "string \<Rightarrow> string list \<Rightarrow> string" where
  "py_join sep [] = []"
| "py_join sep [x] = x"
| "py_join sep (x # y # ys) = x @ sep @ py_join sep (y # ys)"

text \<open>\<open>[" ".join(sents[i:i+3]) for i in range(0, len(sents), 3)]\<close>\<close>

definition sentence_groups :: "string list \<Rightarrow> string list" where
  "sentence_groups sents =
     map (\<lambda>i. py_join '' '' (take 3 (drop i sents)))
       (filter (\<lambda>i. i mod 3 = 0) [0 ..< length sents])"

text \<open>\<open>_chunk_text_to_paragraphs\<close>. The fallback starts with \<open>import nltk\<close>, outside the
  \<open>try\<close>: \<open>nltk\<close> is \<open>None\<close> when the module is not installed, and the import raises. When
  it is installed, \<open>nltk\<close> holds the library function \<open>nltk.sent_tokenize\<close>, which may raise;
  that raise is caught and the sentence pattern is used.\<close>

definition chunk_text_to_paragraphs ::
  "(string \<Rightarrow> error + string list) option \<Rightarrow> string \<Rightarrow> error + string list" where
  "chunk_text_to_paragraphs nltk text =
     (let parts = map py_strip (filter (\<lambda>p. py_strip p \<noteq> []) (split_blank_lines [] text))
      in if parts = []
         then
           (case nltk of
              None \<Rightarrow> Inl ModuleNotFoundError
            | Some sent_tokenize \<Rightarrow>
                (let sents = (case sent_tokenize text of
                                Inr ss \<Rightarrow> ss
                              | Inl e \<Rightarrow> split_sentences [] text);
                     chunks = sentence_groups sents
                 in Inr (if chunks = [] then [text] else chunks)))
         else Inr parts)"

text \<open>The chunking in the specification's words (section 4.2), kept apart from the code:
  the paragraphs between blank-line boundaries when the text has such a boundary (and a
  paragraph that is not blank); otherwise groups of three sentences, the sentences cut by
  the sentence pattern of the code; and the whole text as the single chunk when there is
  no sentence.\<close>

definition spec_chunks :: "string \<Rightarrow> string list" where
  "spec_chunks text =
     (let pieces = split_blank_lines [] text;
          parts = map py_strip (filter (\<lambda>p. py_strip p \<noteq> []) pieces)
      in if 1 < length pieces \<and> parts \<noteq> [] then parts
         else (let chunks = sentence_groups (split_sentences [] text)
               in if chunks = [] then [text] else chunks))"

text \<open>The last resort of \<open>_get_embeddings_for_texts\<close>: a vector of 384 zeros to which the
  first 200 characters add \<open>ord(ch) % 97\<close> at position \<open>i % 384\<close>.\<close>

definition hash_embedding :: "string \<Rightarrow> vec" where
  "hash_embedding t =
     fold (\<lambda>(i, ch) v. v[i mod 384 := v ! (i mod 384) + real (of_char ch mod 97)])
       (enumerate 0 (take 200 t)) (replicate 384 0)"

text \<open>\<open>_get_embeddings_for_texts\<close>: the caller's \<open>embed_fn\<close> if there is one (its raise is
  not caught); else the sentence-transformers model \<open>local_model\<close> if the library is
  installed, falling through when it raises; else the hash vectors.\<close>

definition get_embeddings_for_texts ::
  "string list \<Rightarrow> embed_fn option \<Rightarrow> embed_fn option \<Rightarrow> error + vec list" where
  "get_embeddings_for_texts texts embed_fn local_model =
     (case embed_fn of
        Some ef \<Rightarrow> ef texts
      | None \<Rightarrow>
          (case local_model of
             Some st \<Rightarrow> (case st texts of Inr embs \<Rightarrow> Inr embs
                          | Inl e \<Rightarrow> Inr (map hash_embedding texts))
           | None \<Rightarrow> Inr (map hash_embedding texts)))"

text \<open>One entry of \<open>paragraph_scores\<close>; the key \<open>paragraph\<close> is the field
  \<open>paragraph_text\<close>.\<close>

record paragraph_score =
  paragraph_text :: string
  score :: real
  best_matching_jd_chunk :: "string option"

text \<open>The inner loop over \<open>enumerate(j_embs)\<close> for the resume chunk \<open>i\<close>, with
  \<open>(best_score, best_j)\<close> as its state.\<close>

fun best_match ::
  "vec list \<Rightarrow> nat \<Rightarrow> string list \<Rightarrow> (nat \<times> vec) list \<Rightarrow> real \<times> string option
     \<Rightarrow> error + (real \<times> string option)" where
  "best_match r_embs i jd_chunks [] best = Inr best"
| "best_match r_embs i jd_chunks ((j, j_emb) # rest) (best_score, best_j) =
     bind_err (nth_err r_embs i) (\<lambda>r_emb.
     bind_err (cosine (Some r_emb) (Some j_emb)) (\<lambda>sc.
       if best_score < sc
       then bind_err (nth_err jd_chunks j) (\<lambda>c.
              best_match r_embs i jd_chunks rest (sc, Some c))
       else best_match r_embs i jd_chunks rest (best_score, best_j)))"

text \<open>The outer loop over \<open>enumerate(resume_chunks)\<close>. The list \<open>sums\<close> of the source holds
  the scores it appends; it is \<open>best_scores\<close> below.\<close>

fun paragraph_loop ::
  "vec list \<Rightarrow> vec list \<Rightarrow> string list \<Rightarrow> (nat \<times> string) list \<Rightarrow> error + paragraph_score list" where
  "paragraph_loop r_embs j_embs jd_chunks [] = Inr []"
| "paragraph_loop r_embs j_embs jd_chunks ((i, r) # rest) =
     bind_err (best_match r_embs i jd_chunks (enumerate 0 j_embs) (0, None)) (\<lambda>best.
     bind_err (paragraph_loop r_embs j_embs jd_chunks rest) (\<lambda>ps.
       Inr (\<lparr> paragraph_text = r, score = fst best, best_matching_jd_chunk = snd best \<rparr> # ps)))"

record semantic_result =
  overall_score :: real
  overall_pct :: real
  paragraph_scores :: "paragraph_score list"
  resume_chunks :: "string list"
  jd_chunks :: "string list"

definition semantic_similarity_resume_jd ::
  "rounding \<Rightarrow> (string \<Rightarrow> error + string list) option \<Rightarrow> embed_fn option \<Rightarrow> embed_fn option
     \<Rightarrow> string \<Rightarrow> string \<Rightarrow> error + semantic_result" where
  "semantic_similarity_resume_jd rnd nltk embed_fn local_model resume_text jd_text =
     bind_err (chunk_text_to_paragraphs nltk resume_text) (\<lambda>resume_chunks.
     bind_err (chunk_text_to_paragraphs nltk jd_text) (\<lambda>jd_chunks.
     let texts = resume_chunks @ jd_chunks
     in bind_err (get_embeddings_for_texts texts embed_fn local_model) (\<lambda>embs.
        let r_embs = take (length resume_chunks) embs;
            j_embs = drop (length resume_chunks) embs
        in bind_err (paragraph_loop r_embs j_embs jd_chunks (enumerate 0 resume_chunks))
             (\<lambda>paragraph_scores.
        let best_scores = map score paragraph_scores;
            weights = map (\<lambda>p. max 1 (length (py_split p))) resume_chunks;
            weighted_sum = sum_list (map (\<lambda>(s, w). s * real w) (zip best_scores weights))
        in bind_err (if weights \<noteq> [] then checked_div weighted_sum (real (sum_list weights))
                     else Inr 0) (\<lambda>overall.
             Inr \<lparr> overall_score = overall,
                   overall_pct = rnd (overall * 100) 2,
                   paragraph_scores = paragraph_scores,
                   resume_chunks = resume_chunks,
                   jd_chunks = jd_chunks \<rparr>)))))"

text \<open>The overall score in the specification's words (section 4.2), kept apart from the
  code: each resume chunk is given by its word count and its cosine similarities to the JD
  chunks; its best-match value is the largest of these, its weight the word count floored
  at 1, and the overall score the weighted mean of the best-match values.\<close>

definition spec_overall_score :: "(nat \<times> real list) list \<Rightarrow> real" where
  "spec_overall_score chunks =
     sum_list (map (\<lambda>(words, cosines). Max (set cosines) * real (max 1 words)) chunks)
       / real (sum_list (map (\<lambda>(words, cosines). max 1 words) chunks))"

section \<open>utils/embeddings.py\<close>

text \<open>\<open>EmbeddingEngine.cosine_similarity\<close>\<close>

definition cosine_similarity :: "vec option \<Rightarrow> vec option \<Rightarrow> error + real" where
  "cosine_similarity vec1 vec2 =
     (case vec1 of None \<Rightarrow> Inr 0
      | Some v1 \<Rightarrow>
          (case vec2 of None \<Rightarrow> Inr 0
           | Some v2 \<Rightarrow>
               (let norm1 = norm_vec v1; norm2 = norm_vec v2
                in if norm1 = 0 \<or> norm2 = 0 then Inr 0
                   else bind_err (dot_vec v1 v2) (\<lambda>d. checked_div d (norm1 * norm2)))))"


section \<open>models/analytics\_engine.py\<close>

text \<open>\<open>math.exp\<close> raises \<open>OverflowError\<close> when its result exceeds the largest float.\<close>

definition max_float :: real where
  "max_float = 2 ^ 1024 - 2 ^ 971"

definition math_exp :: "real \<Rightarrow> error + real" where
  "math_exp x = (if max_float < exp x then Inl OverflowError else Inr (exp x))"

definition analytics_default_weights :: weights where
  "analytics_default_weights =
     [(''semantic'', 35 / 100), (''keyword'', 30 / 100), (''structure'', 20 / 100),
      (''action'', 15 / 100)]"

definition score_interpretation :: "real \<Rightarrow> string" where
  "score_interpretation s =
     (if 80 \<le> s then ''Excellent match - highly likely to pass ATS''
      else if 60 \<le> s then ''Good match - likely to pass ATS''
      else if 40 \<le> s then ''Moderate match - may pass ATS with optimization''
      else ''Poor match - significant optimization needed'')"

text \<open>The result of \<open>AnalyticsEngine.ats_score\<close>; the keys \<open>score\<close>, \<open>components\<close>, \<open>weights\<close>
  and \<open>interpretation\<close> are the fields below.\<close>

record ats_report =
  report_score :: real
  report_components :: "(string \<times> real) list"
  report_weights :: weights
  report_interpretation :: string

text \<open>\<open>AnalyticsEngine.ats_score\<close>. The two scores that the methods \<open>structure_score\<close> and
  \<open>action_verbs_score\<close> read from the resume text by regular expressions (each is a float
  from \<open>0\<close> to \<open>100\<close>) are the parameters \<open>struct_score\<close> and \<open>action_score\<close>; the texts
  themselves are used for nothing else.\<close>

definition ats_score ::
  "rounding \<Rightarrow> real \<Rightarrow> real \<Rightarrow> real \<Rightarrow> real \<Rightarrow> weights option \<Rightarrow> error + ats_report" where
  "ats_score rnd struct_score action_score semantic_score keyword_overlap weights_arg =
     (let weights = (case weights_arg of None \<Rightarrow> analytics_default_weights | Some w \<Rightarrow> w);
          sem_norm = semantic_score / 100;
          kw_norm = keyword_overlap / 100;
          struct_norm = struct_score / 100;
          action_norm = action_score / 100
      in bind_err (getitem weights ''semantic'') (\<lambda>w_sem.
         bind_err (getitem weights ''keyword'') (\<lambda>w_kw.
         bind_err (getitem weights ''structure'') (\<lambda>w_st.
         bind_err (getitem weights ''action'') (\<lambda>w_act.
         let raw = sem_norm * w_sem + kw_norm * w_kw + struct_norm * w_st + action_norm * w_act
         in bind_err (math_exp (- (raw / (25 / 100) - 2))) (\<lambda>e.
            let sigmoid = 100 / (1 + e)
            in Inr \<lparr> report_score = rnd sigmoid 2,
                     report_components =
                       [(''semantic'', rnd semantic_score 2),
                        (''keyword_overlap'', rnd keyword_overlap 2),
                        (''structure'', rnd struct_score 2),
                        (''action_verbs'', rnd action_score 2)],
                     report_weights = weights,
                     report_interpretation = score_interpretation sigmoid \<rparr>))))))"

text \<open>The secondary (display) formula in the specification's words (section 4.4), kept
  apart from the code: the logistic transform of a weighted raw value.\<close>

definition spec_display_score :: "real \<Rightarrow> real" where
  "spec_display_score raw = 100 / (1 + exp (- (raw / (25 / 100) - 2)))"

section \<open>backend/agents.py\<close>

text \<open>Each agent runs its tool functions inside \<open>try ... except Exception\<close>. The tools are
  parameters of the model: the work of an agent is given by its outcome, \<open>Inl\<close> for a
  raise. \<open>str(e)\<close> is \<open>str_error\<close>: an exception of a library carries its message; the
  texts that numpy gives to its \<open>ValueError\<close> and \<open>TypeError\<close> are not modelled, the name of
  the exception stands for them.\<close>

definition str_error :: "error \<Rightarrow> string" where
  "str_error e =
     (case e of
        KeyError k \<Rightarrow> [CHR 0x27] @ k @ [CHR 0x27]
      | IndexError \<Rightarrow> ''list index out of range''
      | ValueError \<Rightarrow> ''ValueError''
      | TypeError \<Rightarrow> ''TypeError''
      | ZeroDivisionError \<Rightarrow> ''division by zero''
      | ModuleNotFoundError \<Rightarrow> ''No module named '' @ [CHR 0x27] @ ''nltk'' @ [CHR 0x27]
      | OverflowError \<Rightarrow> ''math range error''
      | External msg \<Rightarrow> msg)"

text \<open>\<open>ResumeAgent.process\<close> logs the exception and raises it again.\<close>

definition resume_agent_process :: "error + 'r \<Rightarrow> error + 'r" where
  "resume_agent_process work = (case work of Inr resume_data \<Rightarrow> Inr resume_data | Inl e \<Rightarrow> Inl e)"

text \<open>The other four agents return a dictionary that holds the message under the key
  \<open>error\<close>: \<open>{"requirements": {}, "parsed_skills": [], "error": str(e)}\<close> for the JD,
  \<open>{"semantic": {}, "skill_comparator": {}, "error": str(e)}\<close> for the matcher,
  \<open>{"ats": {"final_score": 0}, "raw_signals": {}, "error": str(e)}\<close> for the scoring and
  \<open>{"error": str(e)}\<close> for the optimizer. Each is the second constructor below.\<close>

datatype 'j jd_data = Jd_parsed 'j | Jd_error string

datatype 'm matcher_result = Matcher_output 'm | Matcher_error string

datatype 's score_output = Score_output 's | Score_error string

datatype 'o optimized = Optimized 'o | Optimizer_error string

definition jd_agent_process :: "error + 'j \<Rightarrow> 'j jd_data" where
  "jd_agent_process work =
     (case work of Inr parsed \<Rightarrow> Jd_parsed parsed | Inl e \<Rightarrow> Jd_error (str_error e))"

definition matcher_agent_match :: "error + 'm \<Rightarrow> 'm matcher_result" where
  "matcher_agent_match work =
     (case work of Inr m \<Rightarrow> Matcher_output m | Inl e \<Rightarrow> Matcher_error (str_error e))"

definition scoring_agent_score :: "error + 's \<Rightarrow> 's score_output" where
  "scoring_agent_score work =
     (case work of Inr sc \<Rightarrow> Score_output sc | Inl e \<Rightarrow> Score_error (str_error e))"

definition optimizer_agent_optimize :: "error + 'o \<Rightarrow> 'o optimized" where
  "optimizer_agent_optimize work =
     (case work of Inr opt \<Rightarrow> Optimized opt | Inl e \<Rightarrow> Optimizer_error (str_error e))"

section \<open>backend/orchestration.py\<close>

text \<open>The five agents as the engine calls them: \<open>self.resume_agent.process\<close>,
  \<open>self.jd_agent.process\<close>, \<open>self.matcher_agent.match\<close>, \<open>self.scoring_agent.score\<close> and
  \<open>self.optimizer_agent.optimize\<close>, each a call that returns or raises.\<close>

record ('r, 'j, 'm, 's, 'o) agents =
  resume_agent :: "string \<Rightarrow> error + 'r"
  jd_agent :: "string \<Rightarrow> error + 'j"
  matcher_agent :: "'r \<Rightarrow> string \<Rightarrow> error + 'm"
  scoring_agent :: "'r \<Rightarrow> 'j \<Rightarrow> 'm \<Rightarrow> error + 's"
  optimizer_agent :: "'r \<Rightarrow> 'j \<Rightarrow> error + 'o"

text \<open>The tool work behind the agents of \<open>agents.py\<close>, and the agents that
  \<open>OrchestrationEngine.__init__\<close> creates from them.\<close>

record ('r, 'j, 'm, 's, 'o) tools =
  parse_resume :: "string \<Rightarrow> error + 'r"
  analyze_jd :: "string \<Rightarrow> error + 'j"
  match_tools :: "'r \<Rightarrow> string \<Rightarrow> error + 'm"
  score_tools :: "'r \<Rightarrow> 'j jd_data \<Rightarrow> 'm matcher_result \<Rightarrow> error + 's"
  optimize_tools :: "'r \<Rightarrow> 'j jd_data \<Rightarrow> error + 'o"

definition engine_agents ::
  "('r, 'j, 'm, 's, 'o) tools
     \<Rightarrow> ('r, 'j jd_data, 'm matcher_result, 's score_output, 'o optimized) agents" where
  "engine_agents t =
     \<lparr> resume_agent = (\<lambda>resume_path. resume_agent_process (parse_resume t resume_path)),
       jd_agent = (\<lambda>jd_text. Inr (jd_agent_process (analyze_jd t jd_text))),
       matcher_agent = (\<lambda>resume_data jd_text.
          Inr (matcher_agent_match (match_tools t resume_data jd_text))),
       scoring_agent = (\<lambda>resume_data jd_data matcher_out.
          Inr (scoring_agent_score (score_tools t resume_data jd_data matcher_out))),
       optimizer_agent = (\<lambda>resume_data jd_data.
          Inr (optimizer_agent_optimize (optimize_tools t resume_data jd_data))) \<rparr>"

text \<open>The dictionary \<open>result\<close>. A key that is not set is \<open>None\<close>; the key \<open>optimized_resume\<close>
  set to \<open>null\<close> is \<open>Some None\<close>. The key \<open>error\<close> is the field \<open>error_message\<close>; the
  entries of \<open>meta\<close> are the first four fields.\<close>

record ('r, 'j, 'm, 's, 'o) run_result =
  started_at :: int
  target_role :: "string option"
  elapsed_s :: "real option"
  result_path :: "string option"
  resume :: "'r option"
  jd :: "'j option"
  matcher :: "'m option"
  optimized_resume :: "'o option option"
  ats :: "'s option"
  status :: "string option"
  error_message :: "string option"

text \<open>\<open>asyncio.gather\<close> of two tasks: the pair of the results, or the exception of the task
  that raises; when both raise, the flag says that the second was the first to raise.\<close>

definition gather :: "bool \<Rightarrow> error + 'a \<Rightarrow> error + 'b \<Rightarrow> error + ('a \<times> 'b)" where
  "gather second_first a b =
     (case a of
        Inr x \<Rightarrow> (case b of Inr y \<Rightarrow> Inr (x, y) | Inl e \<Rightarrow> Inl e)
      | Inl e1 \<Rightarrow> (case b of Inr y \<Rightarrow> Inl e1
                   | Inl e2 \<Rightarrow> Inl (if second_first then e2 else e1)))"

text \<open>\<open>run_optimizer\<close>: a raise of the optimizer agent is logged and becomes \<open>None\<close>.\<close>

definition run_optimizer :: "error + 'o \<Rightarrow> 'o option" where
  "run_optimizer call = (case call of Inr opt \<Rightarrow> Some opt | Inl e \<Rightarrow> None)"

text \<open>The body of the \<open>try\<close> in \<open>OrchestrationEngine.run\<close>: the dictionary as it stands when
  the body ends, and the exception that ended it, if any.\<close>

definition run_pipeline ::
  "('r, 'j, 'm, 's, 'o) agents \<Rightarrow> bool \<Rightarrow> string \<Rightarrow> string
     \<Rightarrow> ('r, 'j, 'm, 's, 'o) run_result
     \<Rightarrow> ('r, 'j, 'm, 's, 'o) run_result \<times> error option" where
  "run_pipeline ag jd_raises_first resume_path jd_text result0 =
     (case gather jd_raises_first (resume_agent ag resume_path) (jd_agent ag jd_text) of
        Inl e \<Rightarrow> (result0, Some e)
      | Inr (resume_data, jd_data) \<Rightarrow>
          (let result1 = result0 \<lparr> resume := Some resume_data, jd := Some jd_data \<rparr>;
               optimized = run_optimizer (optimizer_agent ag resume_data jd_data)
           in case matcher_agent ag resume_data jd_text of
                Inl e \<Rightarrow> (result1, Some e)
              | Inr matcher_out \<Rightarrow>
                  (let result2 = result1 \<lparr> matcher := Some matcher_out,
                                            optimized_resume := Some optimized \<rparr>
                   in case scoring_agent ag resume_data jd_data matcher_out of
                        Inl e \<Rightarrow> (result2, Some e)
                      | Inr sc \<Rightarrow> (result2 \<lparr> ats := Some sc \<rparr>, None))))"

text \<open>\<open>OrchestrationEngine.run\<close>. \<open>t0\<close> is \<open>int(time.time())\<close> at the start, \<open>elapsed\<close> the
  rounded time spent, and \<open>saved\<close> the outcome of writing the result file when
  \<open>save_result\<close> is set: the path written, or the exception, which is logged.\<close>

definition run ::
  "('r, 'j, 'm, 's, 'o) agents \<Rightarrow> int \<Rightarrow> real \<Rightarrow> bool \<Rightarrow> (error + string) option
     \<Rightarrow> string \<Rightarrow> string \<Rightarrow> string option \<Rightarrow> ('r, 'j, 'm, 's, 'o) run_result" where
  "run ag t0 elapsed jd_raises_first saved resume_path jd_text role =
     (let result0 = \<lparr> started_at = t0, target_role = role, elapsed_s = None,
                      result_path = None, resume = None, jd = None, matcher = None,
                      optimized_resume = None, ats = None, status = None,
                      error_message = None \<rparr>;
          body = run_pipeline ag jd_raises_first resume_path jd_text result0;
          result3 =
            (case snd body of
               None \<Rightarrow> (fst body) \<lparr> elapsed_s := Some elapsed, status := Some ''success'' \<rparr>
             | Some e \<Rightarrow> (fst body) \<lparr> status := Some ''error'',
                                      error_message := Some (str_error e),
                                      elapsed_s := Some elapsed \<rparr>)
      in case saved of
           None \<Rightarrow> result3
         | Some (Inl e) \<Rightarrow> result3
         | Some (Inr path) \<Rightarrow> result3 \<lparr> result_path := Some path \<rparr>)"

section \<open>Lemmas: rounding and clamping\<close>

lemma neighbour_rounding_multiple:
  assumes "neighbour_rounding rnd"
  shows "rnd (of_int k / 10 ^ n) n = of_int k / 10 ^ n"
proof -
  from assms obtain m :: int where m: "rnd (of_int k / 10 ^ n) n = of_int m / 10 ^ n"
    unfolding neighbour_rounding_def by blast
  from assms have "\<bar>rnd (of_int k / 10 ^ n) n - of_int k / 10 ^ n\<bar> < 1 / 10 ^ n"
    unfolding neighbour_rounding_def by blast
  then have "\<bar>(of_int m - of_int k) / (10::real) ^ n\<bar> < 1 / 10 ^ n"
    unfolding m by (simp add: diff_divide_distrib)
  then have "\<bar>of_int m - of_int k :: real\<bar> < 1"
    by (simp add: divide_less_cancel)
  then have "\<bar>of_int (m - k) :: real\<bar> < of_int 1" by simp
  then have "\<bar>m - k\<bar> < 1" by (simp only: of_int_abs [symmetric] of_int_less_iff)
  then have "m = k" by simp
  with m show ?thesis by simp
qed

lemma neighbour_rounding_int:
  assumes "neighbour_rounding rnd"
  shows "rnd (of_int k) n = of_int k"
proof -
  have "(of_int k :: real) = of_int (k * 10 ^ n) / 10 ^ n" by simp
  then show ?thesis
    using neighbour_rounding_multiple [OF assms, of "k * 10 ^ n" n] by simp
qed

lemma neighbour_rounding_numerals:
  assumes "neighbour_rounding rnd"
  shows "rnd 0 n = 0" "rnd 1 n = 1" "rnd 50 n = 50" "rnd 100 n = 100"
  using neighbour_rounding_int [OF assms, of 0 n] neighbour_rounding_int [OF assms, of 1 n]
    neighbour_rounding_int [OF assms, of 50 n] neighbour_rounding_int [OF assms, of 100 n]
  by simp_all

lemma neighbour_rounding_2_bounds:
  assumes nr: "neighbour_rounding rnd" and "0 \<le> x" "x \<le> 100"
  shows "0 \<le> rnd x 2" "rnd x 2 \<le> 100"
proof -
  from nr obtain m :: int where m: "rnd x 2 = of_int m / 10 ^ 2"
    unfolding neighbour_rounding_def by blast
  have e: "(10::real) ^ 2 = 100" by simp
  from nr have "\<bar>rnd x 2 - x\<bar> < 1 / 10 ^ 2"
    unfolding neighbour_rounding_def by blast
  then have d: "\<bar>of_int m / 100 - x\<bar> < 1 / 100" unfolding m e .
  have m100: "rnd x 2 = of_int m / 100" unfolding m e ..
  have "- 1 < (of_int m :: real)" using d assms(2) by linarith
  then have "of_int (- 1) < (of_int m :: real)" by simp
  then have "- 1 < m" by (simp only: of_int_less_iff)
  then have "0 \<le> m" by simp
  then show "0 \<le> rnd x 2" unfolding m100 by simp
  have "(of_int m :: real) < 10001" using d assms(3) by linarith
  then have "(of_int m :: real) < of_int 10001" by simp
  then have "m < 10001" by (simp only: of_int_less_iff)
  then have "m \<le> 10000" by simp
  then have "(of_int m :: real) \<le> of_int 10000" by (simp only: of_int_le_iff)
  then show "rnd x 2 \<le> 100" unfolding m100 by simp
qed

lemma round_half_even_near: "\<bar>of_int (round_half_even y) - y\<bar> < 1"
  unfolding round_half_even_def Let_def
  by (auto simp: abs_less_iff) linarith+

lemma neighbour_half_even: "neighbour_rounding half_even_rounding"
  unfolding neighbour_rounding_def
proof (intro allI conjI)
  fix x :: real and n :: nat
  show "\<exists>k::int. half_even_rounding x n = of_int k / 10 ^ n"
    unfolding half_even_rounding_def by blast
  have "\<bar>of_int (round_half_even (x * 10 ^ n)) - x * 10 ^ n\<bar> < 1"
    by (rule round_half_even_near)
  then have "\<bar>(of_int (round_half_even (x * 10 ^ n)) - x * 10 ^ n) / 10 ^ n\<bar> < 1 / 10 ^ n"
    by (simp add: divide_less_cancel)
  then show "\<bar>half_even_rounding x n - x\<bar> < 1 / 10 ^ n"
    unfolding half_even_rounding_def by (simp add: diff_divide_distrib)
qed

lemmas half_even_numerals = neighbour_rounding_numerals [OF neighbour_half_even]

lemma clamp01_range: "0 \<le> clamp01 x" "clamp01 x \<le> 1"
  by (simp_all add: clamp01_def)

section \<open>Score fusion under the default weights\<close>

lemma getitem_default:
  "getitem default_weights ''semantic'' = Inr (30 / 100)"
  "getitem default_weights ''skills'' = Inr (30 / 100)"
  "getitem default_weights ''keywords'' = Inr (15 / 100)"
  "getitem default_weights ''action_verbs'' = Inr (8 / 100)"
  "getitem default_weights ''experience'' = Inr (12 / 100)"
  by (simp_all add: getitem_def default_weights_def)

lemma positive_sum_default:
  "positive_sum default_weights a b c d e =
     Inr (30 / 100 * a + 30 / 100 * b + 15 / 100 * c + 8 / 100 * d + 12 / 100 * e)"
  by (simp add: positive_sum_def getitem_default bind_err_def)

text \<open>With the weight \<open>-0.05\<close> the product \<open>weights["formatting"] * s_fmt_pen\<close> is never
  positive, so \<open>max(0.0, ...)\<close> always yields \<open>0.0\<close>.\<close>

lemma penalty_default: "0 \<le> s \<Longrightarrow> penalty default_weights s = 0"
  by (simp add: penalty_def default_weights_def get_default_def max_def mult_nonneg_nonpos2)

lemma normaliser_default: "normaliser default_weights = 95 / 100"
  by (simp add: normaliser_def default_weights_def)

lemma raw_score_default:
  "0 \<le> s \<Longrightarrow> raw_score default_weights a b c d e s =
     Inr (30 / 100 * a + 30 / 100 * b + 15 / 100 * c + 8 / 100 * d + 12 / 100 * e)"
  by (simp add: raw_score_def positive_sum_default penalty_default bind_err_def)

lemma fuse_default_final:
  "\<exists>r. fuse_components rnd a b c d e f None = Inr r
     \<and> final_score_norm r =
         clamp01 ((30 / 100 * clamp01 a + 30 / 100 * clamp01 b + 15 / 100 * clamp01 c
                   + 8 / 100 * clamp01 d + 12 / 100 * clamp01 e) / (95 / 100))
     \<and> final_score r = rnd (final_score_norm r * 100) 2"
  by (simp add: fuse_components_def Let_def raw_score_default
      normaliser_default clamp01_range bind_err_def getitem_default)

text \<open>
  Claim C1. The specification's fused score contains the formatting term
  \<open>-0.05 * formatting_penalty\<close>, so a positive formatting penalty should strictly lower
  an unclamped score. The code computes \<open>max(0.0, weights["formatting"] * s_fmt_pen)\<close>,
  which is \<open>0\<close> for the negative default weight: the fused score does not depend on
  the formatting penalty at all, whatever the rounding. At the input where the five
  positive signals are \<open>0.5\<close> and the formatting penalty is \<open>1\<close> the code returns \<open>50\<close>,
  the same as with formatting penalty \<open>0\<close>, while the specification's formula gives
  \<open>850/19\<close>, about \<open>44.74\<close>.
\<close>

theorem fuse_components_drops_formatting_term:
  "(\<exists>r r0. fuse_components rnd a b c d e f None = Inr r
        \<and> fuse_components rnd a b c d e 0 None = Inr r0
        \<and> final_score r = final_score r0)
   \<and> (\<exists>r. fuse_components half_even_rounding (1 / 2) (1 / 2) (1 / 2) (1 / 2) (1 / 2) 1 None
              = Inr r
        \<and> final_score r = 50)
   \<and> spec_final_score (1 / 2) (1 / 2) (1 / 2) (1 / 2) (1 / 2) 1 = 850 / 19
   \<and> spec_final_score (1 / 2) (1 / 2) (1 / 2) (1 / 2) (1 / 2) 0 = 50"
proof -
  obtain r where r: "fuse_components rnd a b c d e f None = Inr r"
      "final_score r = rnd (final_score_norm r * 100) 2"
      "final_score_norm r =
         clamp01 ((30 / 100 * clamp01 a + 30 / 100 * clamp01 b + 15 / 100 * clamp01 c
                   + 8 / 100 * clamp01 d + 12 / 100 * clamp01 e) / (95 / 100))"
    using fuse_default_final [of rnd a b c d e f] by blast
  obtain r0 where r0: "fuse_components rnd a b c d e 0 None = Inr r0"
      "final_score r0 = rnd (final_score_norm r0 * 100) 2"
      "final_score_norm r0 =
         clamp01 ((30 / 100 * clamp01 a + 30 / 100 * clamp01 b + 15 / 100 * clamp01 c
                   + 8 / 100 * clamp01 d + 12 / 100 * clamp01 e) / (95 / 100))"
    using fuse_default_final [of rnd a b c d e 0] by blast
  have general: "\<exists>r r0. fuse_components rnd a b c d e f None = Inr r
        \<and> fuse_components rnd a b c d e 0 None = Inr r0 \<and> final_score r = final_score r0"
    using r r0 by simp
  obtain h where h:
      "fuse_components half_even_rounding (1 / 2) (1 / 2) (1 / 2) (1 / 2) (1 / 2) 1 None = Inr h"
      "final_score h = half_even_rounding (final_score_norm h * 100) 2"
      "final_score_norm h =
         clamp01 ((30 / 100 * clamp01 (1 / 2) + 30 / 100 * clamp01 (1 / 2)
                   + 15 / 100 * clamp01 (1 / 2) + 8 / 100 * clamp01 (1 / 2)
                   + 12 / 100 * clamp01 (1 / 2)) / (95 / 100))"
    using fuse_default_final [of half_even_rounding "1 / 2" "1 / 2" "1 / 2" "1 / 2" "1 / 2" 1]
    by blast
  have "final_score_norm h = 1 / 2"
    unfolding h(3) by (simp add: clamp01_def)
  then have "final_score h = 50"
    unfolding h(2) by (simp only: half_even_numerals times_divide_eq_left mult_1
        divide_numeral_1) (simp add: half_even_numerals)
  with h(1) have concrete:
    "\<exists>r. fuse_components half_even_rounding (1 / 2) (1 / 2) (1 / 2) (1 / 2) (1 / 2) 1 None
           = Inr r
        \<and> final_score r = 50"
    by blast
  have s1: "spec_final_score (1 / 2) (1 / 2) (1 / 2) (1 / 2) (1 / 2) 1 = 850 / 19"
    by (simp add: spec_final_score_def clamp01_def)
  have s0: "spec_final_score (1 / 2) (1 / 2) (1 / 2) (1 / 2) (1 / 2) 0 = 50"
    by (simp add: spec_final_score_def clamp01_def)
  from general concrete s1 s0 show ?thesis by blast
qed

text \<open>
  Claim C5. Under the default weights, and with any rounding to a neighbouring multiple
  of \<open>0.01\<close>, the fused \<open>final_score\<close> is returned for every combination of the six inputs
  and lies in \<open>[0, 100]\<close>; when all six clamped inputs are \<open>1\<close> it is exactly \<open>100\<close>; when
  all six clamped inputs are \<open>0\<close> it is \<open>0\<close>, hence not negative.
\<close>

theorem fuse_components_final_score_range:
  assumes "neighbour_rounding rnd"
  shows "\<exists>r. fuse_components rnd a b c d e f None = Inr r
       \<and> 0 \<le> final_score r \<and> final_score r \<le> 100
       \<and> (clamp01 a = 1 \<and> clamp01 b = 1 \<and> clamp01 c = 1 \<and> clamp01 d = 1
             \<and> clamp01 e = 1 \<and> clamp01 f = 1 \<longrightarrow> final_score r = 100)
       \<and> (clamp01 a = 0 \<and> clamp01 b = 0 \<and> clamp01 c = 0 \<and> clamp01 d = 0
             \<and> clamp01 e = 0 \<and> clamp01 f = 0 \<longrightarrow> final_score r = 0 \<and> 0 \<le> final_score r)"
proof -
  obtain r where r: "fuse_components rnd a b c d e f None = Inr r"
      "final_score r = rnd (final_score_norm r * 100) 2"
      "final_score_norm r =
         clamp01 ((30 / 100 * clamp01 a + 30 / 100 * clamp01 b + 15 / 100 * clamp01 c
                   + 8 / 100 * clamp01 d + 12 / 100 * clamp01 e) / (95 / 100))"
    using fuse_default_final [of rnd a b c d e f] by blast
  have n: "0 \<le> final_score_norm r * 100" "final_score_norm r * 100 \<le> 100"
    unfolding r(3) using clamp01_range by simp_all
  have range: "0 \<le> final_score r" "final_score r \<le> 100"
    unfolding r(2) using neighbour_rounding_2_bounds [OF assms n] by simp_all
  have ones: "final_score r = 100"
    if "clamp01 a = 1 \<and> clamp01 b = 1 \<and> clamp01 c = 1 \<and> clamp01 d = 1
          \<and> clamp01 e = 1 \<and> clamp01 f = 1"
  proof -
    have "final_score_norm r = 1"
      unfolding r(3) using that by (simp add: clamp01_def)
    then show ?thesis
      unfolding r(2) by (simp add: neighbour_rounding_numerals [OF assms])
  qed
  have zeros: "final_score r = 0"
    if "clamp01 a = 0 \<and> clamp01 b = 0 \<and> clamp01 c = 0 \<and> clamp01 d = 0
          \<and> clamp01 e = 0 \<and> clamp01 f = 0"
  proof -
    have "final_score_norm r = 0"
      unfolding r(3) using that by (simp add: clamp01_def)
    then show ?thesis
      unfolding r(2) by (simp add: neighbour_rounding_numerals [OF assms])
  qed
  from r(1) range ones zeros show ?thesis by auto
qed

theorem fuse_components_final_score_range_witness:
  "neighbour_rounding half_even_rounding
   \<and> (\<exists>r. fuse_components half_even_rounding 1 1 1 1 1 1 None = Inr r \<and> final_score r = 100)
   \<and> (\<exists>r. fuse_components half_even_rounding 0 0 0 0 0 0 None = Inr r \<and> final_score r = 0)
   \<and> (\<exists>r. fuse_components half_even_rounding 7 (- 2) (1 / 3) 1 0 (1 / 2) None = Inr r
          \<and> 0 \<le> final_score r \<and> final_score r \<le> 100)"
  using fuse_components_final_score_range [OF neighbour_half_even, of 1 1 1 1 1 1]
    fuse_components_final_score_range [OF neighbour_half_even, of 0 0 0 0 0 0]
    fuse_components_final_score_range [OF neighbour_half_even, of 7 "- 2" "1 / 3" 1 0 "1 / 2"]
    neighbour_half_even
  by (auto simp: clamp01_def)

section \<open>Skill comparison\<close>

lemma compare_skills_matching_None:
  "compare_skills_matching rnd rs js None thr =
     pass1 rnd (enumerate 0 (map normalize_skill js)) (zip rs (map normalize_skill rs)) ([], {})"
  by (simp add: compare_skills_matching_def Let_def)


text \<open>
  Claim C2. With an empty JD skill list \<open>compare_skills\<close> returns (the model has no raise:
  the embedding pass runs inside \<open>try ... except Exception\<close>), but its
  \<open>match_percentage\<close> is \<open>0\<close>, not \<open>100\<close>: the guard is \<open>max(1, len(jskills))\<close>, so the
  ratio is \<open>(0 - 0) / 1\<close>. The claim as stated fails for the resume list \<open>["Python"]\<close>.
\<close>

theorem compare_skills_empty_jd_counterexample:
  "match_percentage (compare_skills half_even_rounding [''Python''] [] None (3 / 4)) = 0
   \<and> match_percentage (compare_skills half_even_rounding [''Python''] [] None (3 / 4)) \<noteq> 100"
  by (simp add: compare_skills_def Let_def half_even_numerals)

text \<open>
  Claim C2, amended. For every resume skill list, every embedding function (or none),
  every threshold and every rounding to a neighbouring multiple, \<open>compare_skills\<close> on an
  empty JD skill list returns a result whose \<open>match_percentage\<close> is \<open>0\<close>.
\<close>

theorem compare_skills_empty_jd_percentage:
  assumes "neighbour_rounding rnd"
  shows "match_percentage (compare_skills rnd rs [] ef thr) = 0"
  by (simp add: compare_skills_def Let_def neighbour_rounding_numerals [OF assms])

theorem compare_skills_empty_jd_percentage_witness:
  "neighbour_rounding half_even_rounding
   \<and> match_percentage (compare_skills half_even_rounding [''Python'', ''SQL''] []
         (Some (\<lambda>texts. Inl (External ''no model''))) (3 / 4)) = 0"
  using compare_skills_empty_jd_percentage [OF neighbour_half_even, of "[''Python'', ''SQL'']"
      "Some (\<lambda>texts. Inl (External ''no model''))" "3 / 4"] neighbour_half_even
  by simp

subsection \<open>Pass 1\<close>

lemma scan_jd_filter:
  "scan_jd r idx jn best = scan_jd r {} (filter (\<lambda>(j, jj). j \<notin> idx) jn) best"
proof (induction jn arbitrary: best)
  case Nil
  show ?case by simp
next
  case (Cons p jn)
  obtain j jj where p: "p = (j, jj)" by (cases p)
  obtain bj bs where best: "best = (bj, bs)" by (cases best)
  show ?case
    unfolding p best using Cons.IH by (simp add: Let_def)
qed

lemma scan_jd_exact:
  "find (\<lambda>(j, jj). jj = r) cs = Some c \<Longrightarrow> scan_jd r {} cs best = (Some c, 1)"
proof (induction cs arbitrary: best)
  case Nil
  then show ?case by simp
next
  case (Cons p cs)
  obtain j jj where p: "p = (j, jj)" by (cases p)
  obtain bj bs where best: "best = (bj, bs)" by (cases best)
  show ?case
  proof (cases "r = jj")
    case True
    with Cons.prems p have "c = (j, jj)" by simp
    with p best True show ?thesis by (simp add: Let_def)
  next
    case False
    with Cons.prems p have "find (\<lambda>(j, jj). jj = r) cs = Some c" by auto
    from Cons.IH [OF this] p best False show ?thesis by (simp add: Let_def)
  qed
qed

lemma Max_insert_absorb:
  fixes a b :: real
  assumes "finite A" and "a \<le> b"
  shows "Max (insert a (insert b A)) = Max (insert b A)"
proof -
  define M where "M = Max (insert b A)"
  have "b \<le> M" unfolding M_def using assms(1) by (intro Max_ge) auto
  moreover have "Max (insert a (insert b A)) = max a M"
    unfolding M_def using assms(1) by (intro Max_insert) auto
  ultimately show ?thesis using assms(2) unfolding M_def [symmetric] by (simp add: max_def)
qed

lemma scan_jd_best:
  assumes "find (\<lambda>(j, jj). jj = r) cs = None"
  shows "scan_jd r {} cs (bj, bs) =
     (if bs < Max (insert bs ((\<lambda>(j, jj). simple_token_overlap r jj) ` set cs))
      then find (\<lambda>(j, jj). simple_token_overlap r jj
                   = Max (insert bs ((\<lambda>(j, jj). simple_token_overlap r jj) ` set cs))) cs
      else bj,
      Max (insert bs ((\<lambda>(j, jj). simple_token_overlap r jj) ` set cs)))"
  using assms
proof (induction cs arbitrary: bj bs)
  case Nil
  show ?case by simp
next
  case (Cons p cs)
  obtain j jj where p: "p = (j, jj)" by (cases p)
  from Cons.prems p have neq: "r \<noteq> jj" and rest: "find (\<lambda>(j, jj). jj = r) cs = None"
    by (auto split: if_splits)
  define sim where "sim = simple_token_overlap r jj"
  define A where "A = (\<lambda>(j, jj). simple_token_overlap r jj) ` set cs"
  have fin: "finite A" by (simp add: A_def)
  have img: "(\<lambda>(j, jj). simple_token_overlap r jj) ` set (p # cs) = insert sim A"
    by (simp add: p sim_def A_def)
  show ?case
  proof (cases "bs < sim")
    case True
    define M where "M = Max (insert sim A)"
    have ge: "sim \<le> M" unfolding M_def using fin by (intro Max_ge) auto
    have m_eq: "Max (insert bs (insert sim A)) = M"
      unfolding M_def using fin True by (intro Max_insert_absorb) auto
    have "scan_jd r {} (p # cs) (bj, bs) = scan_jd r {} cs (Some (j, jj), sim)"
      using p neq True by (simp add: Let_def sim_def)
    also have "\<dots> = (if sim < M then find (\<lambda>(j, jj). simple_token_overlap r jj = M) cs
                      else Some (j, jj), M)"
      using Cons.IH [OF rest, of "Some (j, jj)" sim] unfolding A_def [symmetric] M_def by simp
    also have "\<dots> = (if bs < M then find (\<lambda>(j, jj). simple_token_overlap r jj = M) (p # cs)
                      else bj, M)"
      using True ge by (auto simp: p sim_def [symmetric])
    finally show ?thesis unfolding img m_eq .
  next
    case False
    define M where "M = Max (insert bs A)"
    have "Max (insert sim (insert bs A)) = M"
      unfolding M_def using fin False by (intro Max_insert_absorb) auto
    then have m_eq: "Max (insert bs (insert sim A)) = M" by (simp add: insert_commute)
    have "scan_jd r {} (p # cs) (bj, bs) = scan_jd r {} cs (bj, bs)"
      using p neq False by (simp add: Let_def sim_def)
    also have "\<dots> = (if bs < M then find (\<lambda>(j, jj). simple_token_overlap r jj = M) cs
                      else bj, M)"
      using Cons.IH [OF rest, of bj bs] unfolding A_def [symmetric] M_def by simp
    also have "\<dots> = (if bs < M then find (\<lambda>(j, jj). simple_token_overlap r jj = M) (p # cs)
                      else bj, M)"
      using False by (auto simp: p sim_def [symmetric])
    finally show ?thesis unfolding img m_eq .
  qed
qed

text \<open>
  Claim C3. The lexical similarity of the code is not intersection over union: it divides
  the size of the intersection by the larger of the two token-set sizes. For the skills
  \<open>python data analysis tools\<close> and \<open>python data analysis skills\<close> the code's ratio is
  \<open>3/4\<close> and the pair is matched, while intersection over union is \<open>3/5\<close>, which does not
  exceed \<open>0.6\<close>.
\<close>

theorem simple_token_overlap_counterexample:
  "simple_token_overlap ''python data analysis tools'' ''python data analysis skills'' = 3 / 4
   \<and> spec_token_overlap ''python data analysis tools'' ''python data analysis skills'' = 3 / 5
   \<and> matched_skills (compare_skills half_even_rounding [''python data analysis tools'']
          [''python data analysis skills''] None (3 / 4))
       = [\<lparr> resume_skill = ''python data analysis tools'',
             jd_skill = Some ''python data analysis skills'', similarity = 3 / 4 \<rparr>]"
  unfolding compare_skills_def compare_skills_matching_None by code_simp

text \<open>
  Claim C3, amended. One round of Pass 1, for a resume skill with normal form \<open>r\<close>, looks
  only at the JD skills whose position is not yet matched. If one of them has a normal
  form equal to \<open>r\<close>, the first such is accepted at once with similarity \<open>1.0\<close>. Otherwise
  the first candidate of highest overlap is accepted if and only if that overlap exceeds
  \<open>0.6\<close>. The overlap of two skills is the number of common tokens of their normal forms
  divided by the larger of the two token counts (\<open>0\<close> when either has no token).
\<close>

theorem pass1_step_lexical_rule:
  assumes "neighbour_rounding rnd"
  shows "pass1_step rnd jn (rskill, r) (matched, idx) =
     (let cands = filter (\<lambda>(j, jj). j \<notin> idx) jn
      in case find (\<lambda>(j, jj). jj = r) cands of
           Some (j, jj) \<Rightarrow>
             (matched @ [\<lparr> resume_skill = rskill, jd_skill = Some jj, similarity = 1 \<rparr>],
              insert j idx)
         | None \<Rightarrow>
             (let m = Max (insert 0 ((\<lambda>(j, jj). simple_token_overlap r jj) ` set cands))
              in if 6 / 10 < m
                 then (case find (\<lambda>(j, jj). simple_token_overlap r jj = m) cands of
                         Some (j, jj) \<Rightarrow>
                           (matched @ [\<lparr> resume_skill = rskill, jd_skill = Some jj,
                                          similarity = rnd m 3 \<rparr>],
                            insert j idx)
                       | None \<Rightarrow> (matched, idx))
                 else (matched, idx)))
   \<and> simple_token_overlap a b =
       (let aset = set (py_split (normalize_skill a));
            bset = set (py_split (normalize_skill b))
        in if aset = {} \<or> bset = {} then 0
           else real (card (aset \<inter> bset)) / real (max (card aset) (card bset)))"
proof -
  define cands where "cands = filter (\<lambda>(j, jj). j \<notin> idx) jn"
  have scan: "scan_jd r idx jn (None, 0) = scan_jd r {} cands (None, 0)"
    unfolding cands_def by (rule scan_jd_filter)
  have step: "pass1_step rnd jn (rskill, r) (matched, idx) =
     (case find (\<lambda>(j, jj). jj = r) cands of
           Some (j, jj) \<Rightarrow>
             (matched @ [\<lparr> resume_skill = rskill, jd_skill = Some jj, similarity = 1 \<rparr>],
              insert j idx)
         | None \<Rightarrow>
             (let m = Max (insert 0 ((\<lambda>(j, jj). simple_token_overlap r jj) ` set cands))
              in if 6 / 10 < m
                 then (case find (\<lambda>(j, jj). simple_token_overlap r jj = m) cands of
                         Some (j, jj) \<Rightarrow>
                           (matched @ [\<lparr> resume_skill = rskill, jd_skill = Some jj,
                                          similarity = rnd m 3 \<rparr>],
                            insert j idx)
                       | None \<Rightarrow> (matched, idx))
                 else (matched, idx)))"
  proof (cases "find (\<lambda>(j, jj). jj = r) cands")
    case (Some c)
    obtain j jj where c: "c = (j, jj)" by (cases c)
    from scan_jd_exact [OF Some, of "(None, 0)"] scan
    have "scan_jd r idx jn (None, 0) = (Some (j, jj), 1)" by (simp add: c)
    then show ?thesis using Some c by (simp add: neighbour_rounding_numerals [OF assms])
  next
    case None
    define m where "m = Max (insert 0 ((\<lambda>(j, jj). simple_token_overlap r jj) ` set cands))"
    from scan_jd_best [OF None, of None 0] scan
    have sc: "scan_jd r idx jn (None, 0) =
        (if 0 < m then find (\<lambda>(j, jj). simple_token_overlap r jj = m) cands else None, m)"
      unfolding m_def by simp
    show ?thesis
    proof (cases "6 / 10 < m")
      case True
      then have "0 < m" by simp
      with sc have "scan_jd r idx jn (None, 0) =
          (find (\<lambda>(j, jj). simple_token_overlap r jj = m) cands, m)"
        by simp
      then show ?thesis
        using None True unfolding m_def [symmetric] Let_def
        by (auto split: option.splits)
    next
      case False
      with sc show ?thesis
        using None unfolding m_def [symmetric] Let_def
        by (auto split: option.splits)
    qed
  qed
  show ?thesis
  proof (intro conjI)
    show "pass1_step rnd jn (rskill, r) (matched, idx) =
       (let cands = filter (\<lambda>(j, jj). j \<notin> idx) jn
        in case find (\<lambda>(j, jj). jj = r) cands of
             Some (j, jj) \<Rightarrow>
               (matched @ [\<lparr> resume_skill = rskill, jd_skill = Some jj, similarity = 1 \<rparr>],
                insert j idx)
           | None \<Rightarrow>
               (let m = Max (insert 0 ((\<lambda>(j, jj). simple_token_overlap r jj) ` set cands))
                in if 6 / 10 < m
                   then (case find (\<lambda>(j, jj). simple_token_overlap r jj = m) cands of
                           Some (j, jj) \<Rightarrow>
                             (matched @ [\<lparr> resume_skill = rskill, jd_skill = Some jj,
                                            similarity = rnd m 3 \<rparr>],
                              insert j idx)
                         | None \<Rightarrow> (matched, idx))
                   else (matched, idx)))"
      using step unfolding cands_def Let_def .
    show "simple_token_overlap a b =
       (let aset = set (py_split (normalize_skill a));
            bset = set (py_split (normalize_skill b))
        in if aset = {} \<or> bset = {} then 0
           else real (card (aset \<inter> bset)) / real (max (card aset) (card bset)))"
      by (simp only: simple_token_overlap_def)
  qed
qed

theorem pass1_step_lexical_rule_witness:
  "neighbour_rounding half_even_rounding
   \<and> pass1_step half_even_rounding [(0, ''python data analysis skills'')]
       (''Python Data Analysis Tools'', ''python data analysis tools'') ([], {})
     = ([\<lparr> resume_skill = ''Python Data Analysis Tools'',
            jd_skill = Some ''python data analysis skills'', similarity = 3 / 4 \<rparr>], {0})
   \<and> pass1_step half_even_rounding [(0, ''aws''), (1, ''sql'')] (''SQL'', ''sql'') ([], {0})
     = ([\<lparr> resume_skill = ''SQL'', jd_skill = Some ''sql'', similarity = 1 \<rparr>], {0, 1})"
proof -
  have ov: "simple_token_overlap ''python data analysis tools'' ''python data analysis skills''
      = 3 / 4"
    by code_simp
  have hr: "half_even_rounding (3 / 4) 3 = 3 / 4"
    using neighbour_rounding_multiple [OF neighbour_half_even, of 750 3] by simp
  have a: "pass1_step half_even_rounding [(0, ''python data analysis skills'')]
       (''Python Data Analysis Tools'', ''python data analysis tools'') ([], {})
     = ([\<lparr> resume_skill = ''Python Data Analysis Tools'',
            jd_skill = Some ''python data analysis skills'', similarity = 3 / 4 \<rparr>], {0})"
    using pass1_step_lexical_rule [OF neighbour_half_even,
        of "[(0, ''python data analysis skills'')]" "''Python Data Analysis Tools''"
          "''python data analysis tools''" "[]" "{}", THEN conjunct1]
    by (simp add: ov hr Let_def)
  have b: "pass1_step half_even_rounding [(0, ''aws''), (1, ''sql'')] (''SQL'', ''sql'') ([], {0})
     = ([\<lparr> resume_skill = ''SQL'', jd_skill = Some ''sql'', similarity = 1 \<rparr>], {0, 1})"
    using pass1_step_lexical_rule [OF neighbour_half_even,
        of "[(0, ''aws''), (1, ''sql'')]" "''SQL''" "''sql''" "[]" "{0}", THEN conjunct1]
    by (simp add: Let_def insert_commute)
  from a b neighbour_half_even show ?thesis by blast
qed


subsection \<open>Both passes keep the invariant\<close>

lemma scan_jd_result:
  "scan_jd r idx jn (bj0, bs0) = (Some c, s) \<Longrightarrow> Some c = bj0 \<or> (c \<in> set jn \<and> fst c \<notin> idx)"
proof (induction jn arbitrary: bj0 bs0)
  case Nil
  then show ?case by simp
next
  case (Cons p jn)
  obtain j jj where p: "p = (j, jj)" by (cases p)
  show ?case
  proof (cases "j \<in> idx")
    case True
    with Cons.prems p have "scan_jd r idx jn (bj0, bs0) = (Some c, s)" by simp
    from Cons.IH [OF this] show ?thesis by auto
  next
    case False
    show ?thesis
    proof (cases "r = jj")
      case True
      with Cons.prems p False have "c = (j, jj)" by (simp add: Let_def)
      with p False show ?thesis by simp
    next
      case neq: False
      show ?thesis
      proof (cases "bs0 < simple_token_overlap r jj")
        case True
        with Cons.prems p False neq
        have "scan_jd r idx jn (Some (j, jj), simple_token_overlap r jj) = (Some c, s)"
          by (simp add: Let_def)
        from Cons.IH [OF this] p False show ?thesis by auto
      next
        case nlt: False
        with Cons.prems p False neq have "scan_jd r idx jn (bj0, bs0) = (Some c, s)"
          by (simp add: Let_def)
        from Cons.IH [OF this] show ?thesis by auto
      qed
    qed
  qed
qed

lemma pass1_step_inv:
  assumes "jd_inv names st"
  shows "jd_inv names (pass1_step rnd (enumerate 0 names) rr st)"
proof -
  obtain rskill r where rr: "rr = (rskill, r)" by (cases rr)
  obtain matched idx where st: "st = (matched, idx)" by (cases st)
  obtain bj bs where sc: "scan_jd r idx (enumerate 0 names) (None, 0) = (bj, bs)"
    by (cases "scan_jd r idx (enumerate 0 names) (None, 0)")
  show ?thesis
  proof (cases bj)
    case None
    with assms rr st sc show ?thesis by simp
  next
    case (Some c)
    obtain j jj where c: "c = (j, jj)" by (cases c)
    from scan_jd_result [of r idx "enumerate 0 names" None 0 c bs] sc Some
    have "c \<in> set (enumerate 0 names)" by simp
    with c have j: "j < length names" and jj: "jj = names ! j"
      by (auto simp: in_set_enumerate_eq)
    show ?thesis
    proof (cases "6 / 10 < bs")
      case True
      with rr st sc Some c
      have step: "pass1_step rnd (enumerate 0 names) rr st =
          (matched @ [\<lparr> resume_skill = rskill, jd_skill = Some jj,
                         similarity = rnd bs 3 \<rparr>], insert j idx)"
        by simp
      from assms st have sub: "idx \<subseteq> {..<length names}"
        and eq: "jd_skill ` set matched - {None} = Some ` ((!) names ` idx)"
        by (simp_all add: jd_inv_def)
      have "jd_skill ` set (matched @ [\<lparr> resume_skill = rskill, jd_skill = Some jj,
                         similarity = rnd bs 3 \<rparr>]) - {None}
            = insert (Some jj) (jd_skill ` set matched - {None})"
        by auto
      also have "\<dots> = Some ` ((!) names ` insert j idx)"
        unfolding eq jj by auto
      finally show ?thesis
        unfolding step jd_inv_def using sub j by simp
    next
      case False
      with assms rr st sc Some c show ?thesis by simp
    qed
  qed
qed

lemma pass1_inv:
  "jd_inv names st \<Longrightarrow> jd_inv names (pass1 rnd (enumerate 0 names) rrs st)"
  by (induction rrs arbitrary: st) (simp_all add: pass1_step_inv)

lemma jd_inv_init: "jd_inv names ([], {})"
  by (simp add: jd_inv_def)

lemma scan_embeddings_result:
  "scan_embeddings re je i uj (b0, s0) = Inr (Some j, s)
     \<Longrightarrow> Some j = b0 \<or> j \<in> snd ` set uj"
proof (induction uj arbitrary: b0 s0)
  case Nil
  then show ?case by simp
next
  case (Cons p uj)
  obtain k nm where p: "p = (k, nm)" by (cases p)
  from Cons.prems p obtain sim where
    "scan_embeddings re je i uj (if s0 < sim then (Some nm, sim) else (b0, s0)) = Inr (Some j, s)"
    by (auto simp: bind_err_def split: sum.splits)
  then show ?case
    using Cons.IH [of "Some nm" sim] Cons.IH [of b0 s0] p
    by (auto split: if_splits)
qed

lemma index_of_Some: "index_of xs x = Some k \<Longrightarrow> k < length xs \<and> xs ! k = x"
proof (induction xs arbitrary: k)
  case Nil
  then show ?case by simp
next
  case (Cons y ys)
  then show ?case by (auto split: if_splits)
qed

lemma jd_inv_append_None:
  "jd_inv names (matched, idx)
     \<Longrightarrow> jd_inv names (matched @ [\<lparr> resume_skill = r, jd_skill = None, similarity = s \<rparr>], idx)"
  by (auto simp: jd_inv_def)

lemma jd_inv_append_Some:
  assumes "jd_inv names (matched, idx)" and "k < length names"
  shows "jd_inv names
           (matched @ [\<lparr> resume_skill = r, jd_skill = Some (names ! k), similarity = s \<rparr>],
            insert k idx)"
proof -
  from assms(1) have sub: "idx \<subseteq> {..<length names}"
    and eq: "jd_skill ` set matched - {None} = Some ` ((!) names ` idx)"
    by (simp_all add: jd_inv_def)
  have "jd_skill ` set (matched @ [\<lparr> resume_skill = r, jd_skill = Some (names ! k),
                         similarity = s \<rparr>]) - {None}
        = insert (Some (names ! k)) (jd_skill ` set matched - {None})"
    by auto
  also have "\<dots> = Some ` ((!) names ` insert k idx)"
    unfolding eq by auto
  finally show ?thesis
    unfolding jd_inv_def using sub assms(2) by simp
qed

lemma index_of_None: "index_of xs x = None \<Longrightarrow> x \<notin> set xs"
  by (induction xs) (auto split: if_splits)

lemma pass2_inv:
  assumes "snd ` set uj \<subseteq> set jskills"
  shows "jd_inv jskills st \<Longrightarrow> jd_inv jskills (pass2 rnd thr jskills re je uj urs st)"
proof (induction urs arbitrary: st)
  case Nil
  then show ?case by simp
next
  case (Cons p urs)
  obtain i r where p: "p = (i, r)" by (cases p)
  obtain matched idx where st: "st = (matched, idx)" by (cases st)
  show ?case
  proof (cases "scan_embeddings re je i uj (None, 0)")
    case (Inl e)
    with Cons.prems p st show ?thesis by simp
  next
    case (Inr b)
    obtain bj bs where b: "b = (bj, bs)" by (cases b)
    show ?thesis
    proof (cases "thr \<le> bs")
      case False
      with Inr b p st Cons show ?thesis by simp
    next
      case True
      show ?thesis
      proof (cases bj)
        case None
        with Inr b p st True Cons.prems show ?thesis
          by (simp add: jd_inv_append_None)
      next
        case (Some j)
        from scan_embeddings_result [of re je i uj None 0 j bs] Inr b Some
        have "j \<in> snd ` set uj" by simp
        with assms have "j \<in> set jskills" by blast
        then obtain k where k: "index_of jskills j = Some k"
          using index_of_None [of jskills j] by (cases "index_of jskills j") auto
        from index_of_Some [OF k] have kl: "k < length jskills" and kj: "jskills ! k = j"
          by simp_all
        from Cons.prems st have "jd_inv jskills (matched, idx)" by simp
        from jd_inv_append_Some [OF this kl, of r "rnd bs 3"]
        have "jd_inv jskills
            (matched @ [\<lparr> resume_skill = r, jd_skill = Some j, similarity = rnd bs 3 \<rparr>],
             insert k idx)"
          by (simp add: kj)
        from Cons.IH [OF this] Inr b p st True Some k show ?thesis by simp
      qed
    qed
  qed
qed

lemma compare_skills_matching_inv:
  assumes "\<forall>j \<in> snd (pass1 rnd (enumerate 0 (map normalize_skill js))
                       (zip rs (map normalize_skill rs)) ([], {})).
             normalize_skill (js ! j) = js ! j"
  shows "jd_inv js (compare_skills_matching rnd rs js ef thr)"
proof -
  let ?jn = "map normalize_skill js"
  let ?st1 = "pass1 rnd (enumerate 0 ?jn) (zip rs (map normalize_skill rs)) ([], {})"
  have st1: "jd_inv ?jn ?st1"
    by (intro pass1_inv jd_inv_init)
  then have sub1: "snd ?st1 \<subseteq> {..<length js}"
    and eq1: "jd_skill ` set (fst ?st1) - {None} = Some ` ((!) ?jn ` snd ?st1)"
    by (simp_all add: jd_inv_def)
  have "(!) ?jn ` snd ?st1 = (!) js ` snd ?st1"
  proof (rule image_cong [OF refl])
    fix j
    assume j: "j \<in> snd ?st1"
    with sub1 have "j < length js" by auto
    then have "?jn ! j = normalize_skill (js ! j)" by simp
    with assms j show "?jn ! j = js ! j" by simp
  qed
  with eq1 have "jd_skill ` set (fst ?st1) - {None} = Some ` ((!) js ` snd ?st1)"
    by simp
  with sub1 have raw: "jd_inv js ?st1"
    unfolding jd_inv_def by simp
  show ?thesis
  proof (cases ef)
    case None
    with raw show ?thesis by (simp add: compare_skills_matching_def Let_def)
  next
    case (Some f)
    have en: "snd ` set (enumerate 0 ys) = set ys" for ys :: "string list"
      using map_snd_enumerate [of 0 ys] by (metis set_map)
    have "set (map snd (filter (\<lambda>(idx, j). idx \<notin> snd ?st1) (enumerate 0 js)))
            \<subseteq> snd ` set (enumerate 0 js)"
      by auto
    then have sub: "snd ` set (enumerate 0 (map snd (filter (\<lambda>(idx, j). idx \<notin> snd ?st1)
                  (enumerate 0 js)))) \<subseteq> set js"
      unfolding en .
    from pass2_inv [OF sub raw] raw Some show ?thesis
      by (auto simp: compare_skills_matching_def Let_def split: sum.splits)
  qed
qed

lemma missing_skill_names:
  "skill ` set (missing_skills (compare_skills rnd rs js ef thr)) =
     {js ! k | k. k < length js \<and> k \<notin> snd (compare_skills_matching rnd rs js ef thr)}"
  by (force simp: compare_skills_def Let_def in_set_enumerate_eq image_iff)



text \<open>
  Claim C7. The matched pairs and the missing list do not partition the JD skill strings.
  A string that occurs twice in the JD list can be matched at one position and missing at
  the other (resume \<open>["aws"]\<close>, JD \<open>["aws", "aws"]\<close>: \<open>aws\<close> is in both). Pass 1 records the
  normal form of the JD skill, not the skill as given (resume \<open>["Python"]\<close>, JD
  \<open>["Python"]\<close>: the pair carries \<open>python\<close>, and \<open>Python\<close> is in neither list).
\<close>

theorem compare_skills_partition_counterexample:
  "Some ''aws'' \<in> jd_skill ` set (matched_skills
       (compare_skills half_even_rounding [''aws''] [''aws'', ''aws''] None (3 / 4)))
   \<and> ''aws'' \<in> skill ` set (missing_skills
       (compare_skills half_even_rounding [''aws''] [''aws'', ''aws''] None (3 / 4)))
   \<and> Some ''Python'' \<notin> jd_skill ` set (matched_skills
       (compare_skills half_even_rounding [''Python''] [''Python''] None (3 / 4)))
   \<and> ''Python'' \<notin> skill ` set (missing_skills
       (compare_skills half_even_rounding [''Python''] [''Python''] None (3 / 4)))"
  unfolding compare_skills_def compare_skills_matching_None by code_simp

text \<open>
  Claim C7, amended. For every resume skill list and every JD skill list in which no
  string occurs twice and in which each JD skill that the lexical pass (Pass 1) matches is
  written in its normal form, every JD skill is classified exactly once: either it is the
  \<open>jd_skill\<close> of a matched pair or it is in \<open>missing_skills\<close>, never both and never
  neither. This holds for every embedding function (also one that raises or returns too
  few vectors), for no embedding function, for every threshold and every rounding; JD
  skills that only the embedding pass can match need not be in normal form.
\<close>

theorem compare_skills_partition:
  assumes "distinct js"
    and "\<forall>j \<in> snd (pass1 rnd (enumerate 0 (map normalize_skill js))
                       (zip rs (map normalize_skill rs)) ([], {})).
           normalize_skill (js ! j) = js ! j"
    and "s \<in> set js"
  shows "(Some s \<in> jd_skill ` set (matched_skills (compare_skills rnd rs js ef thr)))
         \<noteq> (s \<in> skill ` set (missing_skills (compare_skills rnd rs js ef thr)))"
proof -
  let ?st = "compare_skills_matching rnd rs js ef thr"
  from assms(3) obtain j where j: "j < length js" and s: "s = js ! j"
    by (auto simp: in_set_conv_nth)
  from compare_skills_matching_inv [OF assms(2), of ef thr]
  have sub: "snd ?st \<subseteq> {..<length js}"
    and eq: "jd_skill ` set (fst ?st) - {None} = Some ` ((!) js ` snd ?st)"
    by (simp_all add: jd_inv_def)
  have m: "matched_skills (compare_skills rnd rs js ef thr) = fst ?st"
    by (simp add: compare_skills_def Let_def)
  have "Some (js ! j) \<in> jd_skill ` set (fst ?st)
        \<longleftrightarrow> Some (js ! j) \<in> jd_skill ` set (fst ?st) - {None}"
    by simp
  also have "\<dots> \<longleftrightarrow> (\<exists>k \<in> snd ?st. js ! k = js ! j)"
    unfolding eq by (auto simp: image_iff) metis
  also have "\<dots> \<longleftrightarrow> j \<in> snd ?st"
  proof
    assume "\<exists>k \<in> snd ?st. js ! k = js ! j"
    then obtain k where k: "k \<in> snd ?st" "js ! k = js ! j" by blast
    from k(1) sub have "k < length js" by auto
    from nth_eq_iff_index_eq [OF assms(1) this j] k(2) have "k = j" by simp
    with k(1) show "j \<in> snd ?st" by simp
  next
    assume "j \<in> snd ?st"
    then show "\<exists>k \<in> snd ?st. js ! k = js ! j" by blast
  qed
  finally have matched_iff: "Some (js ! j) \<in> jd_skill ` set (fst ?st) \<longleftrightarrow> j \<in> snd ?st" .
  have "js ! j \<in> skill ` set (missing_skills (compare_skills rnd rs js ef thr))
        \<longleftrightarrow> (\<exists>k. k < length js \<and> k \<notin> snd ?st \<and> js ! k = js ! j)"
    unfolding missing_skill_names by (auto simp: image_iff) metis+
  also have "\<dots> \<longleftrightarrow> j \<notin> snd ?st"
    using j nth_eq_iff_index_eq [OF assms(1)] by blast
  finally show ?thesis using matched_iff m s by simp
qed

theorem compare_skills_partition_witness:
  "snd (pass1 half_even_rounding (enumerate 0 (map normalize_skill [''PyTorch'']))
          (zip [''torch''] (map normalize_skill [''torch''])) ([], {})) = {}
   \<and> ((Some ''PyTorch'' \<in> jd_skill ` set (matched_skills
           (compare_skills half_even_rounding [''torch''] [''PyTorch'']
              (Some (\<lambda>texts. Inr (map (\<lambda>t. [1]) texts))) (3 / 4))))
        \<noteq> (''PyTorch'' \<in> skill ` set (missing_skills
           (compare_skills half_even_rounding [''torch''] [''PyTorch'']
              (Some (\<lambda>texts. Inr (map (\<lambda>t. [1]) texts))) (3 / 4)))))
   \<and> snd (pass1 half_even_rounding (enumerate 0 (map normalize_skill [''python'', ''aws'']))
          (zip [''Python'', ''SQL''] (map normalize_skill [''Python'', ''SQL''])) ([], {})) = {0}
   \<and> normalize_skill ''python'' = ''python''
   \<and> ((Some ''aws'' \<in> jd_skill ` set (matched_skills
           (compare_skills half_even_rounding [''Python'', ''SQL''] [''python'', ''aws''] None
              (3 / 4))))
        \<noteq> (''aws'' \<in> skill ` set (missing_skills
           (compare_skills half_even_rounding [''Python'', ''SQL''] [''python'', ''aws''] None
              (3 / 4)))))"
proof -
  have p1: "snd (pass1 half_even_rounding (enumerate 0 (map normalize_skill [''PyTorch'']))
          (zip [''torch''] (map normalize_skill [''torch''])) ([], {})) = {}"
    by code_simp
  have p2: "snd (pass1 half_even_rounding (enumerate 0 (map normalize_skill [''python'', ''aws'']))
          (zip [''Python'', ''SQL''] (map normalize_skill [''Python'', ''SQL''])) ([], {})) = {0}"
    by code_simp
  have n2: "normalize_skill ''python'' = ''python''"
    by code_simp
  have h1: "\<forall>j \<in> snd (pass1 half_even_rounding (enumerate 0 (map normalize_skill [''PyTorch'']))
          (zip [''torch''] (map normalize_skill [''torch''])) ([], {})).
        normalize_skill ([''PyTorch''] ! j) = [''PyTorch''] ! j"
    unfolding p1 by simp
  have h2: "\<forall>j \<in> snd (pass1 half_even_rounding
          (enumerate 0 (map normalize_skill [''python'', ''aws'']))
          (zip [''Python'', ''SQL''] (map normalize_skill [''Python'', ''SQL''])) ([], {})).
        normalize_skill ([''python'', ''aws''] ! j) = [''python'', ''aws''] ! j"
    unfolding p2 using n2 by simp
  have d1: "distinct [''PyTorch'']" by simp
  have d2: "distinct [''python'', ''aws'']" by simp
  have s1: "''PyTorch'' \<in> set [''PyTorch'']" by simp
  have s2: "''aws'' \<in> set [''python'', ''aws'']" by simp
  from compare_skills_partition [OF d1 h1 s1] compare_skills_partition [OF d2 h2 s2] p1 p2 n2
  show ?thesis by blast
qed


section \<open>Chunking of the semantic matcher\<close>

text \<open>
  Claim C9. The chunking step does not do what the claim, and the comment
  \<open>fallback: split into sentences groups of 3\<close> in the code, say. The fallback is guarded
  by \<open>if not parts\<close>, and \<open>parts\<close> is empty only for a text of white space: a text with a
  visible character and no blank line is returned as one chunk, whatever the number of its
  sentences (\<open>One. Two. Three. Four. Five.\<close> is one chunk, where the groups of three
  sentences are two chunks). For the empty text and for a text of white space the fallback
  starts with \<open>import nltk\<close>, outside the \<open>try\<close>: without that module the step raises
  \<open>ModuleNotFoundError\<close> instead of returning the whole text as the single chunk; with the
  module it returns one chunk. A blank line with Windows line ends (CR LF CR LF) is not a
  boundary for the pattern of the code.
\<close>

theorem chunk_text_to_paragraphs_misses_sentence_groups:
  "chunk_text_to_paragraphs nltk ''One. Two. Three. Four. Five.''
     = Inr [''One. Two. Three. Four. Five.'']
   \<and> spec_chunks ''One. Two. Three. Four. Five.'' = [''One Two Three'', ''Four Five.'']
   \<and> chunk_text_to_paragraphs None [] = Inl ModuleNotFoundError
   \<and> chunk_text_to_paragraphs None [CHR '' '', CHR 0x0A, CHR '' ''] = Inl ModuleNotFoundError
   \<and> spec_chunks [] = [[]]
   \<and> chunk_text_to_paragraphs (Some (\<lambda>t. Inr [])) [] = Inr [[]]
   \<and> chunk_text_to_paragraphs (Some (\<lambda>t. Inl (External ''punkt''))) [CHR '' '', CHR 0x0A, CHR '' '']
       = Inr [[CHR '' '', CHR 0x0A, CHR '' '']]
   \<and> chunk_text_to_paragraphs nltk (''Skills'' @ [CHR 0x0D, CHR 0x0A, CHR 0x0D, CHR 0x0A] @ ''SQL'')
       = Inr [''Skills'' @ [CHR 0x0D, CHR 0x0A, CHR 0x0D, CHR 0x0A] @ ''SQL'']
   \<and> chunk_text_to_paragraphs nltk (''Skills'' @ [CHR 0x0A, CHR 0x0A] @ ''SQL'')
       = Inr [''Skills'', ''SQL'']"
proof -
  have a: "map py_strip (filter (\<lambda>p. py_strip p \<noteq> [])
              (split_blank_lines [] ''One. Two. Three. Four. Five.''))
           = [''One. Two. Three. Four. Five.'']"
    by code_simp
  have b: "spec_chunks ''One. Two. Three. Four. Five.'' = [''One Two Three'', ''Four Five.'']"
    by code_simp
  have c: "chunk_text_to_paragraphs None [] = Inl ModuleNotFoundError"
    by code_simp
  have d: "chunk_text_to_paragraphs None [CHR '' '', CHR 0x0A, CHR '' ''] = Inl ModuleNotFoundError"
    by code_simp
  have e: "spec_chunks [] = [[]]"
    by code_simp
  have f: "chunk_text_to_paragraphs (Some (\<lambda>t. Inr [])) [] = Inr [[]]"
    by code_simp
  have g: "chunk_text_to_paragraphs (Some (\<lambda>t. Inl (External ''punkt'')))
             [CHR '' '', CHR 0x0A, CHR '' ''] = Inr [[CHR '' '', CHR 0x0A, CHR '' '']]"
    by code_simp
  have h: "map py_strip (filter (\<lambda>p. py_strip p \<noteq> [])
              (split_blank_lines [] (''Skills'' @ [CHR 0x0D, CHR 0x0A, CHR 0x0D, CHR 0x0A] @ ''SQL'')))
           = [''Skills'' @ [CHR 0x0D, CHR 0x0A, CHR 0x0D, CHR 0x0A] @ ''SQL'']"
    by code_simp
  have i: "map py_strip (filter (\<lambda>p. py_strip p \<noteq> [])
              (split_blank_lines [] (''Skills'' @ [CHR 0x0A, CHR 0x0A] @ ''SQL'')))
           = [''Skills'', ''SQL'']"
    by code_simp
  have a': "chunk_text_to_paragraphs nltk ''One. Two. Three. Four. Five.''
     = Inr [''One. Two. Three. Four. Five.'']"
    unfolding chunk_text_to_paragraphs_def a by simp
  have h': "chunk_text_to_paragraphs nltk
       (''Skills'' @ [CHR 0x0D, CHR 0x0A, CHR 0x0D, CHR 0x0A] @ ''SQL'')
       = Inr [''Skills'' @ [CHR 0x0D, CHR 0x0A, CHR 0x0D, CHR 0x0A] @ ''SQL'']"
    unfolding chunk_text_to_paragraphs_def h by simp
  have i': "chunk_text_to_paragraphs nltk (''Skills'' @ [CHR 0x0A, CHR 0x0A] @ ''SQL'')
       = Inr [''Skills'', ''SQL'']"
    unfolding chunk_text_to_paragraphs_def i by simp
  from a' b c d e f g h' i' show ?thesis by blast
qed


section \<open>The semantic matcher\<close>

subsection \<open>Cosine helpers\<close>

lemma checked_div_nonzero: "y \<noteq> 0 \<Longrightarrow> checked_div x y = Inr (x / y)"
  by (simp add: checked_div_def)

lemma cosine_total:
  "length a = length b \<Longrightarrow> \<exists>x. cosine (Some a) (Some b) = Inr x"
  by (simp add: cosine_def Let_def dot_vec_def bind_err_def checked_div_def)

lemma cosine_similarity_total:
  "length a = length b \<Longrightarrow> \<exists>x. cosine_similarity (Some a) (Some b) = Inr x"
  by (simp add: cosine_similarity_def Let_def dot_vec_def bind_err_def checked_div_def)

lemma embedding_similarity_total:
  "length a = length b \<Longrightarrow> \<exists>x. embedding_similarity (Some a) (Some b) = Inr x"
  by (simp add: embedding_similarity_def Let_def dot_vec_def bind_err_def checked_div_def)

lemma cosine_no_zero_division: "cosine a b \<noteq> Inl ZeroDivisionError"
  by (auto simp: cosine_def Let_def dot_vec_def bind_err_def checked_div_def
      split: option.splits)

lemma cosine_similarity_no_zero_division: "cosine_similarity a b \<noteq> Inl ZeroDivisionError"
  by (auto simp: cosine_similarity_def Let_def dot_vec_def bind_err_def checked_div_def
      split: option.splits)

lemma embedding_similarity_no_zero_division: "embedding_similarity a b \<noteq> Inl ZeroDivisionError"
  by (auto simp: embedding_similarity_def Let_def dot_vec_def bind_err_def checked_div_def
      split: option.splits)

subsection \<open>The best match of one resume chunk\<close>

lemma best_match_Max:
  "best_match re i jdc (enumerate k je) (b0, j0) = Inr (b, j)
     \<Longrightarrow> \<exists>cs. map (\<lambda>v. cosine (Some (re ! i)) (Some v)) je = map Inr cs
              \<and> b = Max (insert b0 (set cs))"
proof (induction je arbitrary: k b0 j0)
  case Nil
  then show ?case by simp
next
  case (Cons v rest)
  from Cons.prems obtain a where a: "nth_err re i = Inr a"
    by (cases "nth_err re i") (simp_all add: bind_err_def)
  then have ai: "a = re ! i" by (simp add: nth_err_def split: if_splits)
  from Cons.prems a obtain sc where sc: "cosine (Some a) (Some v) = Inr sc"
    by (cases "cosine (Some a) (Some v)") (simp_all add: bind_err_def)
  show ?case
  proof (cases "b0 < sc")
    case True
    with Cons.prems a sc obtain c where c: "nth_err jdc k = Inr c"
      by (cases "nth_err jdc k") (simp_all add: bind_err_def)
    with Cons.prems a sc True
    have "best_match re i jdc (enumerate (Suc k) rest) (sc, Some c) = Inr (b, j)"
      by (simp add: bind_err_def)
    from Cons.IH [OF this] obtain cs where
      cs: "map (\<lambda>v. cosine (Some (re ! i)) (Some v)) rest = map Inr cs"
          "b = Max (insert sc (set cs))"
      by blast
    have "Max (insert b0 (insert sc (set cs))) = Max (insert sc (set cs))"
      using True by (intro Max_insert_absorb) auto
    with cs sc ai have "map (\<lambda>v. cosine (Some (re ! i)) (Some v)) (v # rest) = map Inr (sc # cs)
        \<and> b = Max (insert b0 (set (sc # cs)))"
      by simp
    then show ?thesis by blast
  next
    case False
    with Cons.prems a sc
    have "best_match re i jdc (enumerate (Suc k) rest) (b0, j0) = Inr (b, j)"
      by (simp add: bind_err_def)
    from Cons.IH [OF this] obtain cs where
      cs: "map (\<lambda>v. cosine (Some (re ! i)) (Some v)) rest = map Inr cs"
          "b = Max (insert b0 (set cs))"
      by blast
    have "Max (insert sc (insert b0 (set cs))) = Max (insert b0 (set cs))"
      using False by (intro Max_insert_absorb) auto
    then have "Max (insert b0 (insert sc (set cs))) = Max (insert b0 (set cs))"
      by (simp add: insert_commute)
    with cs sc ai have "map (\<lambda>v. cosine (Some (re ! i)) (Some v)) (v # rest) = map Inr (sc # cs)
        \<and> b = Max (insert b0 (set (sc # cs)))"
      by simp
    then show ?thesis by blast
  qed
qed

lemma paragraph_loop_scores:
  "paragraph_loop re je jdc (enumerate k chunks) = Inr ps
     \<Longrightarrow> map paragraph_text ps = chunks
        \<and> (\<forall>n < length chunks. \<exists>cs.
              map (\<lambda>v. cosine (Some (re ! (k + n))) (Some v)) je = map Inr cs
              \<and> score (ps ! n) = Max (insert 0 (set cs)))"
proof (induction chunks arbitrary: k ps)
  case Nil
  then show ?case by simp
next
  case (Cons r rest)
  from Cons.prems obtain best where
    best: "best_match re k jdc (enumerate 0 je) (0, None) = Inr best"
    by (cases "best_match re k jdc (enumerate 0 je) (0, None)") (simp_all add: bind_err_def)
  with Cons.prems obtain ps' where
    ps': "paragraph_loop re je jdc (enumerate (Suc k) rest) = Inr ps'"
    by (cases "paragraph_loop re je jdc (enumerate (Suc k) rest)") (simp_all add: bind_err_def)
  with Cons.prems best have ps:
    "ps = \<lparr> paragraph_text = r, score = fst best, best_matching_jd_chunk = snd best \<rparr> # ps'"
    by (simp add: bind_err_def)
  from Cons.IH [OF ps'] have ih1: "map paragraph_text ps' = rest"
    and ih2: "\<forall>n < length rest. \<exists>cs.
              map (\<lambda>v. cosine (Some (re ! (Suc k + n))) (Some v)) je = map Inr cs
              \<and> score (ps' ! n) = Max (insert 0 (set cs))"
    by simp_all
  from best_match_Max [of re k jdc 0 je 0 None "fst best" "snd best"] best
  obtain cs0 where cs0: "map (\<lambda>v. cosine (Some (re ! k)) (Some v)) je = map Inr cs0"
      "fst best = Max (insert 0 (set cs0))"
    by auto
  have "\<exists>cs. map (\<lambda>v. cosine (Some (re ! (k + n))) (Some v)) je = map Inr cs
              \<and> score (ps ! n) = Max (insert 0 (set cs))"
    if "n < length (r # rest)" for n
  proof (cases n)
    case 0
    with cs0 ps show ?thesis by auto
  next
    case (Suc m)
    with that have "m < length rest" by simp
    with ih2 obtain cs where "map (\<lambda>v. cosine (Some (re ! (Suc k + m))) (Some v)) je = map Inr cs"
      "score (ps' ! m) = Max (insert 0 (set cs))"
      by blast
    with Suc ps show ?thesis by auto
  qed
  with ih1 ps show ?case by simp
qed

lemma weighted_sum_zip:
  "sum_list (map (\<lambda>(s, w). s * real w) (zip (map f ps) (map g ps)))
     = sum_list (map (\<lambda>p. f p * real (g p)) ps)"
  by (induction ps) simp_all

subsection \<open>Totality\<close>

lemma best_match_total:
  assumes "i < length re"
    and "\<forall>p \<in> set pairs. fst p < length jdc \<and> length (snd p) = length (re ! i)"
  shows "\<exists>b. best_match re i jdc pairs b0 = Inr b"
  using assms(2)
proof (induction pairs arbitrary: b0)
  case Nil
  then show ?case by simp
next
  case (Cons p pairs)
  obtain j v where p: "p = (j, v)" by (cases p)
  obtain bs bj where b0: "b0 = (bs, bj)" by (cases b0)
  from Cons.prems p have j: "j < length jdc" and v: "length (re ! i) = length v" by auto
  from cosine_total [OF v] obtain sc where sc: "cosine (Some (re ! i)) (Some v) = Inr sc"
    by blast
  from Cons.prems have rest: "\<forall>p \<in> set pairs. fst p < length jdc \<and> length (snd p) = length (re ! i)"
    by simp
  from Cons.IH [OF rest] show ?case
    unfolding p b0 using assms(1) j sc by (simp add: bind_err_def nth_err_def)
qed

lemma paragraph_loop_total:
  assumes "length je \<le> length jdc"
    and "\<forall>v \<in> set re \<union> set je. length v = d"
  shows "\<forall>p \<in> set ics. fst p < length re \<Longrightarrow> \<exists>ps. paragraph_loop re je jdc ics = Inr ps"
proof (induction ics)
  case Nil
  then show ?case by simp
next
  case (Cons p ics)
  obtain i r where p: "p = (i, r)" by (cases p)
  from Cons.prems p have i: "i < length re" by simp
  then have di: "length (re ! i) = d" using assms(2) by simp
  have "\<forall>q \<in> set (enumerate 0 je). fst q < length jdc \<and> length (snd q) = length (re ! i)"
    using assms di by (auto simp: in_set_enumerate_eq)
  from best_match_total [OF i this, of "(0, None)"]
  obtain b where b: "best_match re i jdc (enumerate 0 je) (0, None) = Inr b" by blast
  from Cons.prems have "\<forall>p \<in> set ics. fst p < length re" by simp
  from Cons.IH [OF this] obtain ps where "paragraph_loop re je jdc ics = Inr ps" by blast
  with b p show ?case by (simp add: bind_err_def)
qed

lemma length_fold_update:
  "length (fold (\<lambda>(i, ch) v. v[h i := g i ch v]) xs v0) = length v0"
  by (induction xs arbitrary: v0) (auto split: prod.splits)

lemma length_hash_embedding: "length (hash_embedding t) = 384"
  unfolding hash_embedding_def
  using length_fold_update [of "\<lambda>i. i mod 384" "\<lambda>i ch v. v ! (i mod 384) + real (of_char ch mod 97)"
      "enumerate 0 (take 200 t)" "replicate 384 0"]
  by simp

lemma chunk_nonempty: "chunk_text_to_paragraphs nltk t = Inr cs \<Longrightarrow> cs \<noteq> []"
  by (auto simp: chunk_text_to_paragraphs_def Let_def split: option.splits if_splits)

lemma chunk_error:
  "chunk_text_to_paragraphs nltk t = Inl e \<Longrightarrow> e = ModuleNotFoundError \<and> nltk = None"
  by (auto simp: chunk_text_to_paragraphs_def Let_def split: option.splits if_splits)

lemma sum_list_pos_nat:
  "xs \<noteq> [] \<Longrightarrow> 0 < sum_list (map (\<lambda>p. max (1::nat) (f p)) xs)"
  by (cases xs) (auto simp: less_max_iff_disj)

lemma semantic_similarity_total:
  assumes rc: "chunk_text_to_paragraphs nltk rt = Inr rc"
    and jc: "chunk_text_to_paragraphs nltk jt = Inr jc"
    and "get_embeddings_for_texts (rc @ jc) ef lm = Inr embs"
    and "length embs = length (rc @ jc)"
    and "\<forall>v \<in> set embs. length v = d"
  shows "\<exists>res. semantic_similarity_resume_jd rnd nltk ef lm rt jt = Inr res"
proof -
  let ?re = "take (length rc) embs"
  let ?je = "drop (length rc) embs"
  have ne: "rc \<noteq> []" using rc by (rule chunk_nonempty)
  have lre: "length ?re = length rc" using assms(4) by simp
  have lje: "length ?je \<le> length jc" using assms(4) by simp
  have dims: "\<forall>v \<in> set ?re \<union> set ?je. length v = d"
    using assms(5) by (auto dest: in_set_takeD in_set_dropD)
  have "\<forall>p \<in> set (enumerate 0 rc). fst p < length ?re"
    using lre by (auto simp: in_set_enumerate_eq)
  from paragraph_loop_total [OF lje dims this]
  obtain ps where ps: "paragraph_loop ?re ?je jc (enumerate 0 rc) = Inr ps" by blast
  have "0 < sum_list (map (\<lambda>p. max 1 (length (py_split p))) rc)"
    using ne by (rule sum_list_pos_nat)
  then have nz: "real (sum_list (map (\<lambda>p. max 1 (length (py_split p))) rc)) \<noteq> 0"
    using ne by simp
  show ?thesis
    unfolding semantic_similarity_resume_jd_def Let_def
    using rc jc assms(3) ps nz ne
    by (simp add: bind_err_def checked_div_nonzero)
qed

lemma semantic_similarity_unfold:
  assumes "semantic_similarity_resume_jd rnd nltk ef lm rt jt = Inr res"
  shows "\<exists>rc jc embs. chunk_text_to_paragraphs nltk rt = Inr rc
          \<and> chunk_text_to_paragraphs nltk jt = Inr jc
          \<and> get_embeddings_for_texts (rc @ jc) ef lm = Inr embs
          \<and> paragraph_loop (take (length rc) embs) (drop (length rc) embs) jc
               (enumerate 0 rc) = Inr (paragraph_scores res)
          \<and> overall_score res =
               sum_list (map (\<lambda>(s, w). s * real w)
                 (zip (map score (paragraph_scores res))
                      (map (\<lambda>p. max 1 (length (py_split p))) rc)))
               / real (sum_list (map (\<lambda>p. max 1 (length (py_split p))) rc))
          \<and> overall_pct res = rnd (overall_score res * 100) 2"
proof -
  from assms obtain rc where rc: "chunk_text_to_paragraphs nltk rt = Inr rc"
    unfolding semantic_similarity_resume_jd_def
    by (cases "chunk_text_to_paragraphs nltk rt") (simp_all add: bind_err_def)
  from assms rc obtain jc where jc: "chunk_text_to_paragraphs nltk jt = Inr jc"
    unfolding semantic_similarity_resume_jd_def
    by (cases "chunk_text_to_paragraphs nltk jt") (simp_all add: bind_err_def)
  have ne: "rc \<noteq> []" using rc by (rule chunk_nonempty)
  from assms rc jc obtain embs where embs: "get_embeddings_for_texts (rc @ jc) ef lm = Inr embs"
    unfolding semantic_similarity_resume_jd_def Let_def
    by (cases "get_embeddings_for_texts (rc @ jc) ef lm") (simp_all add: bind_err_def)
  from assms rc jc embs obtain ps where
    ps: "paragraph_loop (take (length rc) embs) (drop (length rc) embs) jc (enumerate 0 rc) = Inr ps"
    unfolding semantic_similarity_resume_jd_def Let_def
    by (cases "paragraph_loop (take (length rc) embs) (drop (length rc) embs) jc (enumerate 0 rc)")
      (simp_all add: bind_err_def)
  from assms rc jc embs ps ne have
    "paragraph_scores res = ps
     \<and> overall_score res =
         sum_list (map (\<lambda>(s, w). s * real w)
           (zip (map score ps) (map (\<lambda>p. max 1 (length (py_split p))) rc)))
         / real (sum_list (map (\<lambda>p. max 1 (length (py_split p))) rc))
     \<and> overall_pct res = rnd (overall_score res * 100) 2"
    unfolding semantic_similarity_resume_jd_def Let_def
    by (auto simp: bind_err_def checked_div_def split: if_splits)
  with rc jc embs ps show ?thesis by blast
qed

subsection \<open>No division by zero\<close>

lemma best_match_no_zero_division:
  "best_match re i jdc pairs b0 \<noteq> Inl ZeroDivisionError"
proof (induction pairs arbitrary: b0)
  case Nil
  then show ?case by simp
next
  case (Cons p pairs)
  obtain j v where p: "p = (j, v)" by (cases p)
  obtain bs bj where b0: "b0 = (bs, bj)" by (cases b0)
  show ?case
    unfolding p b0 using Cons.IH cosine_no_zero_division
    by (auto simp: bind_err_def nth_err_def split: sum.splits)
qed

lemma paragraph_loop_no_zero_division:
  "paragraph_loop re je jdc ics \<noteq> Inl ZeroDivisionError"
proof (induction ics)
  case Nil
  then show ?case by simp
next
  case (Cons p ics)
  obtain i r where p: "p = (i, r)" by (cases p)
  show ?case
    unfolding p using Cons.IH best_match_no_zero_division
    by (auto simp: bind_err_def split: sum.splits)
qed

lemma semantic_similarity_no_zero_division:
  assumes "\<forall>texts. get_embeddings_for_texts texts ef lm \<noteq> Inl ZeroDivisionError"
  shows "semantic_similarity_resume_jd rnd nltk ef lm rt jt \<noteq> Inl ZeroDivisionError"
proof (cases "chunk_text_to_paragraphs nltk rt")
  case (Inl e)
  with chunk_error [OF Inl] show ?thesis
    by (simp add: semantic_similarity_resume_jd_def bind_err_def)
next
  case rc: (Inr rc)
  show ?thesis
  proof (cases "chunk_text_to_paragraphs nltk jt")
    case (Inl e)
    with chunk_error [OF Inl] rc show ?thesis
      by (simp add: semantic_similarity_resume_jd_def bind_err_def)
  next
    case jc: (Inr jc)
    have ne: "rc \<noteq> []" using rc by (rule chunk_nonempty)
    then have "0 < sum_list (map (\<lambda>p. max 1 (length (py_split p))) rc)"
      by (rule sum_list_pos_nat)
    then have nz: "real (sum_list (map (\<lambda>p. max 1 (length (py_split p))) rc)) \<noteq> 0"
      using ne by simp
    show ?thesis
      unfolding semantic_similarity_resume_jd_def Let_def
      using assms paragraph_loop_no_zero_division nz rc jc ne
      by (auto simp: bind_err_def checked_div_nonzero split: sum.splits)
  qed
qed


subsection \<open>The overall score\<close>

lemma sqrt_25: "sqrt 25 = 5"
  using real_sqrt_abs [of 5] by simp

lemma cosine_scenario:
  "cosine (Some [2, 4, 2, 1]) (Some [1, 0, 0, 0]) = Inr (2 / 5)"
  "cosine (Some [4, 3, 0, 0]) (Some [1, 0, 0, 0]) = Inr (4 / 5)"
  by (simp_all add: cosine_def norm_vec_def dot_vec_def checked_div_def bind_err_def sqrt_25)

lemma cosine_opposite: "cosine (Some [1]) (Some [- 1]) = Inr (- 1)"
  by (simp add: cosine_def norm_vec_def dot_vec_def checked_div_def bind_err_def)

lemma half_even_70: "half_even_rounding 70 k = 70"
  using neighbour_rounding_int [OF neighbour_half_even, of 70 k] by simp

lemma scenario_chunks:
  "chunk_text_to_paragraphs None
     (''a b c d e'' @ [CHR 0x0A, CHR 0x0A] @ ''a b c d e f g h i j k l m n o'')
     = Inr [''a b c d e'', ''a b c d e f g h i j k l m n o'']"
  "chunk_text_to_paragraphs None ''x y'' = Inr [''x y'']"
  "chunk_text_to_paragraphs None ''a'' = Inr [''a'']"
  "chunk_text_to_paragraphs None ''b'' = Inr [''b'']"
  "chunk_text_to_paragraphs None ''python'' = Inr [''python'']"
  "chunk_text_to_paragraphs None ''java'' = Inr [''java'']"
  by code_simp+

lemma scenario_words:
  "length (py_split ''a b c d e'') = 5"
  "length (py_split ''a b c d e f g h i j k l m n o'') = 15"
  "length (py_split ''a'') = 1"
  by code_simp+

text \<open>
  Claim C6. The best-match value of a resume chunk is not its largest cosine similarity
  over the JD chunks: \<open>best_score\<close> starts at \<open>0.0\<close> and is replaced only by a larger
  cosine, so a chunk whose cosines are all negative scores \<open>0\<close>. With one resume chunk of
  embedding \<open>[1]\<close> and one JD chunk of embedding \<open>[-1]\<close> the cosine is \<open>-1\<close> and the
  overall score of the code is \<open>0\<close>, where the weighted mean of the best-match cosine
  similarities is \<open>-1\<close>.
\<close>

theorem semantic_overall_score_counterexample:
  "semantic_similarity_resume_jd half_even_rounding None
       (Some (\<lambda>texts. Inr (map (\<lambda>t. if t = ''a'' then [1] else [- 1]) texts))) None ''a'' ''b''
     = Inr \<lparr> overall_score = 0, overall_pct = 0,
             paragraph_scores =
               [\<lparr> paragraph_text = ''a'', score = 0, best_matching_jd_chunk = None \<rparr>],
             resume_chunks = [''a''], jd_chunks = [''b''] \<rparr>
   \<and> cosine (Some [1]) (Some [- 1]) = Inr (- 1)
   \<and> spec_overall_score [(1, [- 1])] = - 1"
proof -
  have "semantic_similarity_resume_jd half_even_rounding None
       (Some (\<lambda>texts. Inr (map (\<lambda>t. if t = ''a'' then [1] else [- 1]) texts))) None ''a'' ''b''
     = Inr \<lparr> overall_score = 0, overall_pct = 0,
             paragraph_scores =
               [\<lparr> paragraph_text = ''a'', score = 0, best_matching_jd_chunk = None \<rparr>],
             resume_chunks = [''a''], jd_chunks = [''b''] \<rparr>"
    unfolding semantic_similarity_resume_jd_def scenario_chunks
    by (simp add: Let_def get_embeddings_for_texts_def bind_err_def nth_err_def cosine_opposite
        checked_div_def scenario_words half_even_numerals)
  moreover have "spec_overall_score [(1, [- 1])] = - 1"
    by (simp add: spec_overall_score_def)
  ultimately show ?thesis using cosine_opposite by blast
qed

text \<open>
  Claim C6, amended. Whenever the Semantic Matcher returns, its result lists the resume
  chunks in order, and its overall score is the weighted mean of their best-match values,
  the weight of a chunk being its word count floored at \<open>1\<close>; the best-match value of a
  chunk is the largest of \<open>0\<close> and its cosine similarities to the JD chunks, so it is the
  largest cosine similarity only when that is not negative. The matcher returns whenever
  both texts are chunked and the embedding backend returns one vector for each chunk, all
  of one length; with no embedding function and no model (the hash vectors) it returns
  whenever both texts are chunked. Two resume chunks of \<open>5\<close> and \<open>15\<close> words with best-match
  similarities \<open>0.4\<close> and \<open>0.8\<close> give the overall score \<open>(5 * 0.4 + 15 * 0.8) / 20 = 0.70\<close>.
\<close>

theorem semantic_overall_score_weighted_mean:
  "(semantic_similarity_resume_jd rnd nltk ef lm rt jt = Inr res \<longrightarrow>
      (\<exists>rc jc embs.
          chunk_text_to_paragraphs nltk rt = Inr rc
        \<and> chunk_text_to_paragraphs nltk jt = Inr jc
        \<and> get_embeddings_for_texts (rc @ jc) ef lm = Inr embs
        \<and> map paragraph_text (paragraph_scores res) = rc
        \<and> overall_score res =
            sum_list (map (\<lambda>p. score p * real (max 1 (length (py_split (paragraph_text p)))))
                       (paragraph_scores res))
            / real (sum_list (map (\<lambda>p. max 1 (length (py_split (paragraph_text p))))
                               (paragraph_scores res)))
        \<and> (\<forall>n < length (paragraph_scores res). \<exists>cs.
               map (\<lambda>v. cosine (Some (embs ! n)) (Some v)) (drop (length rc) embs) = map Inr cs
               \<and> score (paragraph_scores res ! n) = Max (insert 0 (set cs)))))
   \<and> (chunk_text_to_paragraphs nltk rt = Inr rc'
        \<and> chunk_text_to_paragraphs nltk jt = Inr jc'
        \<and> get_embeddings_for_texts (rc' @ jc') ef lm = Inr embs'
        \<and> length embs' = length (rc' @ jc')
        \<and> (\<forall>v \<in> set embs'. length v = d) \<longrightarrow>
        (\<exists>r. semantic_similarity_resume_jd rnd nltk ef lm rt jt = Inr r))
   \<and> (chunk_text_to_paragraphs nltk rt = Inr rc'
        \<and> chunk_text_to_paragraphs nltk jt = Inr jc' \<longrightarrow>
        (\<exists>r. semantic_similarity_resume_jd rnd nltk None None rt jt = Inr r))"
proof (intro conjI impI)
  assume a: "semantic_similarity_resume_jd rnd nltk ef lm rt jt = Inr res"
  let ?w = "\<lambda>p. max 1 (length (py_split p))"
  from semantic_similarity_unfold [OF a] obtain rc jc embs where
    rc: "chunk_text_to_paragraphs nltk rt = Inr rc"
    and jc: "chunk_text_to_paragraphs nltk jt = Inr jc"
    and embs: "get_embeddings_for_texts (rc @ jc) ef lm = Inr embs"
    and loop: "paragraph_loop (take (length rc) embs) (drop (length rc) embs) jc
                 (enumerate 0 rc) = Inr (paragraph_scores res)"
    and ov: "overall_score res =
               sum_list (map (\<lambda>(s, w). s * real w)
                 (zip (map score (paragraph_scores res)) (map ?w rc)))
               / real (sum_list (map ?w rc))"
    by blast
  from paragraph_loop_scores [OF loop]
  have texts: "map paragraph_text (paragraph_scores res) = rc"
    and best: "\<forall>n < length rc. \<exists>cs.
              map (\<lambda>v. cosine (Some (take (length rc) embs ! (0 + n))) (Some v))
                (drop (length rc) embs) = map Inr cs
              \<and> score (paragraph_scores res ! n) = Max (insert 0 (set cs))"
    by blast+
  have w: "map ?w rc = map (\<lambda>p. ?w (paragraph_text p)) (paragraph_scores res)"
    unfolding texts [symmetric] by (simp add: comp_def)
  have mean: "overall_score res =
          sum_list (map (\<lambda>p. score p * real (max 1 (length (py_split (paragraph_text p)))))
                     (paragraph_scores res))
          / real (sum_list (map (\<lambda>p. max 1 (length (py_split (paragraph_text p))))
                             (paragraph_scores res)))"
    unfolding ov w weighted_sum_zip ..
  have len: "length (paragraph_scores res) = length rc"
    using texts by (metis length_map)
  have floor: "\<forall>n < length (paragraph_scores res). \<exists>cs.
                 map (\<lambda>v. cosine (Some (embs ! n)) (Some v)) (drop (length rc) embs) = map Inr cs
                 \<and> score (paragraph_scores res ! n) = Max (insert 0 (set cs))"
    using best unfolding len by simp
  from rc jc embs texts mean floor
  show "\<exists>rc jc embs.
          chunk_text_to_paragraphs nltk rt = Inr rc
        \<and> chunk_text_to_paragraphs nltk jt = Inr jc
        \<and> get_embeddings_for_texts (rc @ jc) ef lm = Inr embs
        \<and> map paragraph_text (paragraph_scores res) = rc
        \<and> overall_score res =
            sum_list (map (\<lambda>p. score p * real (max 1 (length (py_split (paragraph_text p)))))
                       (paragraph_scores res))
            / real (sum_list (map (\<lambda>p. max 1 (length (py_split (paragraph_text p))))
                               (paragraph_scores res)))
        \<and> (\<forall>n < length (paragraph_scores res). \<exists>cs.
               map (\<lambda>v. cosine (Some (embs ! n)) (Some v)) (drop (length rc) embs) = map Inr cs
               \<and> score (paragraph_scores res ! n) = Max (insert 0 (set cs)))"
    by (intro exI conjI)
next
  assume "chunk_text_to_paragraphs nltk rt = Inr rc'
        \<and> chunk_text_to_paragraphs nltk jt = Inr jc'
        \<and> get_embeddings_for_texts (rc' @ jc') ef lm = Inr embs'
        \<and> length embs' = length (rc' @ jc')
        \<and> (\<forall>v \<in> set embs'. length v = d)"
  then show "\<exists>r. semantic_similarity_resume_jd rnd nltk ef lm rt jt = Inr r"
    using semantic_similarity_total [of nltk rt rc' jt jc' ef lm embs' d rnd] by blast
next
  assume c: "chunk_text_to_paragraphs nltk rt = Inr rc'
        \<and> chunk_text_to_paragraphs nltk jt = Inr jc'"
  let ?texts = "rc' @ jc'"
  have "get_embeddings_for_texts ?texts None None = Inr (map hash_embedding ?texts)"
    by (simp add: get_embeddings_for_texts_def)
  moreover have "length (map hash_embedding ?texts) = length ?texts" by simp
  moreover have "\<forall>v \<in> set (map hash_embedding ?texts). length v = 384"
    by (auto simp: length_hash_embedding)
  ultimately show "\<exists>r. semantic_similarity_resume_jd rnd nltk None None rt jt = Inr r"
    using c semantic_similarity_total [of nltk rt rc' jt jc' None None
        "map hash_embedding ?texts" 384 rnd]
    by blast
qed


lemma scenario_eval:
  "semantic_similarity_resume_jd half_even_rounding None
       (Some (\<lambda>texts. Inr (map (\<lambda>t. if t = ''a b c d e'' then [2, 4, 2, 1]
                                      else if t = ''a b c d e f g h i j k l m n o'' then [4, 3, 0, 0]
                                      else [1, 0, 0, 0]) texts)))
       None
       (''a b c d e'' @ [CHR 0x0A, CHR 0x0A] @ ''a b c d e f g h i j k l m n o'') ''x y''
   = Inr \<lparr> overall_score = 7 / 10, overall_pct = 70,
         paragraph_scores =
           [\<lparr> paragraph_text = ''a b c d e'', score = 2 / 5,
               best_matching_jd_chunk = Some ''x y'' \<rparr>,
            \<lparr> paragraph_text = ''a b c d e f g h i j k l m n o'', score = 4 / 5,
               best_matching_jd_chunk = Some ''x y'' \<rparr>],
         resume_chunks = [''a b c d e'', ''a b c d e f g h i j k l m n o''],
         jd_chunks = [''x y''] \<rparr>"
  unfolding semantic_similarity_resume_jd_def scenario_chunks
  by (simp add: Let_def get_embeddings_for_texts_def bind_err_def nth_err_def cosine_scenario
      checked_div_def scenario_words half_even_70)

theorem semantic_overall_score_weighted_mean_witness:
  "semantic_similarity_resume_jd half_even_rounding None
       (Some (\<lambda>texts. Inr (map (\<lambda>t. if t = ''a b c d e'' then [2, 4, 2, 1]
                                      else if t = ''a b c d e f g h i j k l m n o'' then [4, 3, 0, 0]
                                      else [1, 0, 0, 0]) texts)))
       None
       (''a b c d e'' @ [CHR 0x0A, CHR 0x0A] @ ''a b c d e f g h i j k l m n o'') ''x y''
     = Inr \<lparr> overall_score = 7 / 10, overall_pct = 70,
         paragraph_scores =
           [\<lparr> paragraph_text = ''a b c d e'', score = 2 / 5,
               best_matching_jd_chunk = Some ''x y'' \<rparr>,
            \<lparr> paragraph_text = ''a b c d e f g h i j k l m n o'', score = 4 / 5,
               best_matching_jd_chunk = Some ''x y'' \<rparr>],
         resume_chunks = [''a b c d e'', ''a b c d e f g h i j k l m n o''],
         jd_chunks = [''x y''] \<rparr>
   \<and> (7 / 10 :: real) = (2 / 5 * real 5 + 4 / 5 * real 15) / real (5 + 15)
   \<and> spec_overall_score [(5, [2 / 5]), (15, [4 / 5])] = 7 / 10
   \<and> chunk_text_to_paragraphs None ''python'' = Inr [''python'']
   \<and> chunk_text_to_paragraphs None ''java'' = Inr [''java'']
   \<and> (\<exists>r. semantic_similarity_resume_jd half_even_rounding None None None ''python'' ''java''
          = Inr r)"
proof -
  let ?ef = "Some (\<lambda>texts. Inr (map (\<lambda>t. if t = ''a b c d e'' then [2, 4, 2, 1]
                                      else if t = ''a b c d e f g h i j k l m n o'' then [4, 3, 0, 0]
                                      else [1, 0, 0, 0 :: real]) texts)) :: embed_fn option"
  let ?rt = "''a b c d e'' @ [CHR 0x0A, CHR 0x0A] @ ''a b c d e f g h i j k l m n o''"
  let ?ps = "[\<lparr> paragraph_text = ''a b c d e'', score = 2 / 5,
               best_matching_jd_chunk = Some ''x y'' \<rparr>,
            \<lparr> paragraph_text = ''a b c d e f g h i j k l m n o'', score = 4 / 5,
               best_matching_jd_chunk = Some ''x y'' \<rparr>]"
  let ?res = "\<lparr> overall_score = 7 / 10, overall_pct = 70, paragraph_scores = ?ps,
         resume_chunks = [''a b c d e'', ''a b c d e f g h i j k l m n o''],
         jd_chunks = [''x y''] \<rparr>"
  have ev: "semantic_similarity_resume_jd half_even_rounding None ?ef None ?rt ''x y'' = Inr ?res"
    by (rule scenario_eval)
  have "\<exists>rc jc embs.
          chunk_text_to_paragraphs None ?rt = Inr rc
        \<and> chunk_text_to_paragraphs None ''x y'' = Inr jc
        \<and> get_embeddings_for_texts (rc @ jc) ?ef None = Inr embs
        \<and> map paragraph_text (paragraph_scores ?res) = rc
        \<and> overall_score ?res =
            sum_list (map (\<lambda>p. score p * real (max 1 (length (py_split (paragraph_text p)))))
                       (paragraph_scores ?res))
            / real (sum_list (map (\<lambda>p. max 1 (length (py_split (paragraph_text p))))
                               (paragraph_scores ?res)))
        \<and> (\<forall>n < length (paragraph_scores ?res). \<exists>cs.
               map (\<lambda>v. cosine (Some (embs ! n)) (Some v)) (drop (length rc) embs) = map Inr cs
               \<and> score (paragraph_scores ?res ! n) = Max (insert 0 (set cs)))"
    using semantic_overall_score_weighted_mean [of half_even_rounding None ?ef None ?rt "''x y''"
        ?res, THEN conjunct1] ev
    by (rule mp)
  then have "overall_score ?res =
            sum_list (map (\<lambda>p. score p * real (max 1 (length (py_split (paragraph_text p)))))
                       (paragraph_scores ?res))
            / real (sum_list (map (\<lambda>p. max 1 (length (py_split (paragraph_text p))))
                               (paragraph_scores ?res)))"
    by (elim exE conjE)
  then have mean: "(7 / 10 :: real) = (2 / 5 * real 5 + 4 / 5 * real 15) / real (5 + 15)"
    by (simp add: scenario_words)
  have spec: "spec_overall_score [(5, [2 / 5]), (15, [4 / 5])] = 7 / 10"
    by (simp add: spec_overall_score_def)
  have "chunk_text_to_paragraphs None ''python'' = Inr [''python'']
        \<and> chunk_text_to_paragraphs None ''java'' = Inr [''java''] \<longrightarrow>
        (\<exists>r. semantic_similarity_resume_jd half_even_rounding None None None ''python'' ''java''
          = Inr r)"
    by (rule semantic_overall_score_weighted_mean [of half_even_rounding None _ _ "''python''"
        "''java''" _ "[''python'']" "[''java'']", THEN conjunct2, THEN conjunct2])
  then have hash: "\<exists>r. semantic_similarity_resume_jd half_even_rounding None None None
        ''python'' ''java'' = Inr r"
    using scenario_chunks(5,6) by (simp only: simp_thms)
  from ev mean spec scenario_chunks(5,6) hash show ?thesis
    by (intro conjI)
qed


subsection \<open>The cosine helpers of the pipeline\<close>

text \<open>
  Claim C10. Not every cosine helper returns \<open>0.0\<close> for a missing vector, and none is total
  on every pair of vectors: \<open>_embedding_similarity\<close> of the skill comparator has no test
  for \<open>None\<close> and raises \<open>TypeError\<close> there, and \<open>np.dot\<close> raises \<open>ValueError\<close> in each
  helper when two vectors of non-zero norm differ in length.
\<close>

theorem cosine_helpers_counterexample:
  "embedding_similarity None (Some [1, 0]) = Inl TypeError
   \<and> embedding_similarity (Some [1, 0]) None = Inl TypeError
   \<and> cosine (Some [1]) (Some [1, 1]) = Inl ValueError
   \<and> cosine_similarity (Some [1]) (Some [1, 1]) = Inl ValueError
   \<and> embedding_similarity (Some [1]) (Some [1, 1]) = Inl ValueError"
  by (simp add: embedding_similarity_def cosine_def cosine_similarity_def norm_vec_def
      dot_vec_def bind_err_def)

text \<open>
  Claim C10, amended. \<open>_cosine\<close> of the semantic matcher and
  \<open>EmbeddingEngine.cosine_similarity\<close> return \<open>0.0\<close> when either argument is \<open>None\<close>;
  \<open>_embedding_similarity\<close> of the skill comparator raises \<open>TypeError\<close> there. All three
  return \<open>0.0\<close> when either vector has zero norm. For two vectors of the same length all
  three return a number: \<open>0.0\<close> if a norm is zero, else the dot product divided by the
  product of the norms; for vectors of non-zero norm and different lengths they raise
  \<open>ValueError\<close>. No helper ever divides by zero, and the Semantic Matcher does not divide
  by zero either, provided the embedding backend does not: the sum of the weights is at
  least \<open>1\<close>.
\<close>

theorem cosine_helpers_guarded:
  "cosine None b = Inr 0 \<and> cosine a None = Inr 0
   \<and> cosine_similarity None b = Inr 0 \<and> cosine_similarity a None = Inr 0
   \<and> embedding_similarity None b = Inl TypeError
   \<and> embedding_similarity (Some u) None = Inl TypeError
   \<and> (norm_vec u = 0 \<or> norm_vec v = 0 \<longrightarrow>
        cosine (Some u) (Some v) = Inr 0
        \<and> cosine_similarity (Some u) (Some v) = Inr 0
        \<and> embedding_similarity (Some u) (Some v) = Inr 0)
   \<and> (length u = length v \<longrightarrow>
        cosine (Some u) (Some v)
          = Inr (if norm_vec u * norm_vec v = 0 then 0
                 else sum_list (map (\<lambda>(x, y). x * y) (zip u v)) / (norm_vec u * norm_vec v))
        \<and> cosine_similarity (Some u) (Some v) = cosine (Some u) (Some v)
        \<and> embedding_similarity (Some u) (Some v) = cosine (Some u) (Some v))
   \<and> (length u \<noteq> length v \<and> norm_vec u \<noteq> 0 \<and> norm_vec v \<noteq> 0 \<longrightarrow>
        cosine (Some u) (Some v) = Inl ValueError
        \<and> cosine_similarity (Some u) (Some v) = Inl ValueError
        \<and> embedding_similarity (Some u) (Some v) = Inl ValueError)
   \<and> cosine a b \<noteq> Inl ZeroDivisionError
   \<and> cosine_similarity a b \<noteq> Inl ZeroDivisionError
   \<and> embedding_similarity a b \<noteq> Inl ZeroDivisionError
   \<and> ((\<forall>texts. get_embeddings_for_texts texts ef lm \<noteq> Inl ZeroDivisionError) \<longrightarrow>
        semantic_similarity_resume_jd rnd nltk ef lm rt jt \<noteq> Inl ZeroDivisionError)"
proof -
  have none: "cosine None b = Inr 0 \<and> cosine a None = Inr 0
      \<and> cosine_similarity None b = Inr 0 \<and> cosine_similarity a None = Inr 0"
    by (simp add: cosine_def cosine_similarity_def split: option.splits)
  have type: "embedding_similarity None b = Inl TypeError
      \<and> embedding_similarity (Some u) None = Inl TypeError"
    by (simp add: embedding_similarity_def)
  have zero: "norm_vec u = 0 \<or> norm_vec v = 0 \<longrightarrow>
        cosine (Some u) (Some v) = Inr 0
        \<and> cosine_similarity (Some u) (Some v) = Inr 0
        \<and> embedding_similarity (Some u) (Some v) = Inr 0"
    by (auto simp: cosine_def cosine_similarity_def embedding_similarity_def Let_def)
  have same: "length u = length v \<longrightarrow>
        cosine (Some u) (Some v)
          = Inr (if norm_vec u * norm_vec v = 0 then 0
                 else sum_list (map (\<lambda>(x, y). x * y) (zip u v)) / (norm_vec u * norm_vec v))
        \<and> cosine_similarity (Some u) (Some v) = cosine (Some u) (Some v)
        \<and> embedding_similarity (Some u) (Some v) = cosine (Some u) (Some v)"
    by (simp add: cosine_def cosine_similarity_def embedding_similarity_def Let_def
        dot_vec_def bind_err_def checked_div_def)
  have diff: "length u \<noteq> length v \<and> norm_vec u \<noteq> 0 \<and> norm_vec v \<noteq> 0 \<longrightarrow>
        cosine (Some u) (Some v) = Inl ValueError
        \<and> cosine_similarity (Some u) (Some v) = Inl ValueError
        \<and> embedding_similarity (Some u) (Some v) = Inl ValueError"
    by (simp add: cosine_def cosine_similarity_def embedding_similarity_def Let_def
        dot_vec_def bind_err_def)
  have sem: "(\<forall>texts. get_embeddings_for_texts texts ef lm \<noteq> Inl ZeroDivisionError) \<longrightarrow>
        semantic_similarity_resume_jd rnd nltk ef lm rt jt \<noteq> Inl ZeroDivisionError"
    using semantic_similarity_no_zero_division by blast
  from none type zero same diff sem cosine_no_zero_division [of a b]
    cosine_similarity_no_zero_division [of a b] embedding_similarity_no_zero_division [of a b]
  show ?thesis by (intro conjI) blast+
qed

theorem cosine_helpers_guarded_witness:
  "norm_vec [0, 0] = 0
   \<and> cosine (Some [0, 0]) (Some [3, 4]) = Inr 0
   \<and> cosine_similarity (Some [0, 0]) (Some [3, 4]) = Inr 0
   \<and> embedding_similarity (Some [0, 0]) (Some [3, 4]) = Inr 0
   \<and> cosine (Some [3, 4]) (Some [4, 3]) = Inr (24 / 25)
   \<and> cosine_similarity (Some [3, 4]) (Some [4, 3]) = Inr (24 / 25)
   \<and> embedding_similarity (Some [3, 4]) (Some [4, 3]) = Inr (24 / 25)
   \<and> norm_vec [3, 4] = 5 \<and> norm_vec [5] = 5
   \<and> cosine (Some [3, 4]) (Some [5]) = Inl ValueError
   \<and> cosine_similarity (Some [3, 4]) (Some [5]) = Inl ValueError
   \<and> embedding_similarity (Some [3, 4]) (Some [5]) = Inl ValueError
   \<and> (\<forall>texts. get_embeddings_for_texts texts None None \<noteq> Inl ZeroDivisionError)
   \<and> semantic_similarity_resume_jd half_even_rounding None None None ''python'' ''java''
       \<noteq> Inl ZeroDivisionError"
proof -
  have n0: "norm_vec [0, 0] = 0" by (simp add: norm_vec_def)
  have n34: "norm_vec [3, 4] = 5" by (simp add: norm_vec_def sqrt_25)
  have n43: "norm_vec [4, 3] = 5" by (simp add: norm_vec_def sqrt_25)
  have n5: "norm_vec [5] = 5" by (simp add: norm_vec_def)
  have z: "cosine (Some [0, 0]) (Some [3, 4]) = Inr 0
        \<and> cosine_similarity (Some [0, 0]) (Some [3, 4]) = Inr 0
        \<and> embedding_similarity (Some [0, 0]) (Some [3, 4]) = Inr 0"
    using cosine_helpers_guarded [of _ _ "[0, 0]" "[3, 4]"] n0 by blast
  have "cosine (Some [3, 4]) (Some [4, 3])
          = Inr (if norm_vec [3, 4] * norm_vec [4, 3] = 0 then 0
                 else sum_list (map (\<lambda>(x, y). x * y) (zip [3, 4] [4, 3]))
                      / (norm_vec [3, 4] * norm_vec [4, 3]))
        \<and> cosine_similarity (Some [3, 4]) (Some [4, 3]) = cosine (Some [3, 4]) (Some [4, 3])
        \<and> embedding_similarity (Some [3, 4]) (Some [4, 3]) = cosine (Some [3, 4]) (Some [4, 3])"
    using cosine_helpers_guarded [of _ _ "[3, 4]" "[4, 3]"] by simp
  then have s: "cosine (Some [3, 4]) (Some [4, 3]) = Inr (24 / 25)
        \<and> cosine_similarity (Some [3, 4]) (Some [4, 3]) = Inr (24 / 25)
        \<and> embedding_similarity (Some [3, 4]) (Some [4, 3]) = Inr (24 / 25)"
    by (simp add: n34 n43)
  have "length [3, 4 :: real] \<noteq> length [5 :: real] \<and> norm_vec [3, 4] \<noteq> 0 \<and> norm_vec [5] \<noteq> 0"
    by (simp add: n34 n5)
  then have d: "cosine (Some [3, 4]) (Some [5]) = Inl ValueError
        \<and> cosine_similarity (Some [3, 4]) (Some [5]) = Inl ValueError
        \<and> embedding_similarity (Some [3, 4]) (Some [5]) = Inl ValueError"
    using cosine_helpers_guarded [of _ _ "[3, 4]" "[5]"] by blast
  have g: "\<forall>texts. get_embeddings_for_texts texts None None \<noteq> Inl ZeroDivisionError"
    by (simp add: get_embeddings_for_texts_def)
  then have m: "semantic_similarity_resume_jd half_even_rounding None None None ''python'' ''java''
       \<noteq> Inl ZeroDivisionError"
    using cosine_helpers_guarded [of _ _ _ _ None None half_even_rounding None "''python''"
        "''java''"]
    by blast
  from n0 z s n34 n5 d g m show ?thesis by (intro conjI) blast+
qed


section \<open>The orchestration engine\<close>

lemma run_pipeline_resume_raises:
  "resume_agent ag resume_path = Inl e
     \<Longrightarrow> \<exists>e'. run_pipeline ag jf resume_path jd_text result0 = (result0, Some e')"
  by (auto simp: run_pipeline_def gather_def split: sum.splits)

lemma run_pipeline_optimizer_raises:
  assumes "resume_agent ag resume_path = Inr r" and "jd_agent ag jd_text = Inr j"
    and "optimizer_agent ag r j = Inl e" and "matcher_agent ag r jd_text = Inr m"
    and "scoring_agent ag r j m = Inr sc"
  shows "run_pipeline ag jf resume_path jd_text result0 =
     (result0 \<lparr> resume := Some r, jd := Some j, matcher := Some m,
                optimized_resume := Some None, ats := Some sc \<rparr>, None)"
  using assms by (simp add: run_pipeline_def gather_def run_optimizer_def Let_def)

lemma run_pipeline_engine:
  assumes "parse_resume t resume_path = Inr r"
  shows "run_pipeline (engine_agents t) jf resume_path jd_text result0 =
     (result0 \<lparr> resume := Some r,
                jd := Some (jd_agent_process (analyze_jd t jd_text)),
                matcher := Some (matcher_agent_match (match_tools t r jd_text)),
                optimized_resume := Some (Some (optimizer_agent_optimize
                   (optimize_tools t r (jd_agent_process (analyze_jd t jd_text))))),
                ats := Some (scoring_agent_score
                   (score_tools t r (jd_agent_process (analyze_jd t jd_text))
                      (matcher_agent_match (match_tools t r jd_text)))) \<rparr>, None)"
  using assms
  by (simp add: run_pipeline_def gather_def run_optimizer_def Let_def engine_agents_def
      resume_agent_process_def)

lemma run_pipeline_engine_resume_raises:
  assumes "parse_resume t resume_path = Inl e"
  shows "run_pipeline (engine_agents t) jf resume_path jd_text result0 = (result0, Some e)"
  using assms
  by (simp add: run_pipeline_def gather_def engine_agents_def resume_agent_process_def)

lemma run_resume_raises:
  assumes "resume_agent ag resume_path = Inl e"
  shows "status (run ag t0 el jf saved resume_path jd_text role) = Some ''error''
     \<and> matcher (run ag t0 el jf saved resume_path jd_text role) = None
     \<and> ats (run ag t0 el jf saved resume_path jd_text role) = None"
  using run_pipeline_resume_raises [OF assms, of jf jd_text
      "\<lparr> started_at = t0, target_role = role, elapsed_s = None,
        result_path = None, resume = None, jd = None, matcher = None,
        optimized_resume = None, ats = None, status = None, error_message = None \<rparr>"]
  by (auto simp: run_def Let_def split: option.splits sum.splits)

text \<open>
  Claim C4. When the optimization tool raises, the record's \<open>optimized_resume\<close> is not
  \<open>null\<close>: \<open>OptimizationAgent.optimize\<close> catches every exception itself and returns the
  dictionary \<open>{"error": str(e)}\<close>, which the engine stores. With tools that all return,
  except for an optimizer that raises \<open>LLM request failed\<close>, the run has status
  \<open>success\<close> and \<open>optimized_resume\<close> is that dictionary.
\<close>

theorem run_optimizer_failure_counterexample:
  "optimized_resume
     (run (engine_agents
            (\<lparr> parse_resume = (\<lambda>p. Inr ()), analyze_jd = (\<lambda>x. Inr ()),
                match_tools = (\<lambda>r x. Inr ()), score_tools = (\<lambda>r j m. Inr ()),
                optimize_tools = (\<lambda>r j. Inl (External ''LLM request failed'')) \<rparr>
             :: (unit, unit, unit, unit, unit) tools))
        0 0 False None ''cv.pdf'' ''Data engineer'' None)
     = Some (Some (Optimizer_error ''LLM request failed''))
   \<and> optimized_resume
     (run (engine_agents
            (\<lparr> parse_resume = (\<lambda>p. Inr ()), analyze_jd = (\<lambda>x. Inr ()),
                match_tools = (\<lambda>r x. Inr ()), score_tools = (\<lambda>r j m. Inr ()),
                optimize_tools = (\<lambda>r j. Inl (External ''LLM request failed'')) \<rparr>
             :: (unit, unit, unit, unit, unit) tools))
        0 0 False None ''cv.pdf'' ''Data engineer'' None)
     \<noteq> Some None
   \<and> status
     (run (engine_agents
            (\<lparr> parse_resume = (\<lambda>p. Inr ()), analyze_jd = (\<lambda>x. Inr ()),
                match_tools = (\<lambda>r x. Inr ()), score_tools = (\<lambda>r j m. Inr ()),
                optimize_tools = (\<lambda>r j. Inl (External ''LLM request failed'')) \<rparr>
             :: (unit, unit, unit, unit, unit) tools))
        0 0 False None ''cv.pdf'' ''Data engineer'' None)
     = Some ''success''"
  by (simp add: run_def Let_def run_pipeline_engine optimizer_agent_optimize_def str_error_def)

text \<open>
  Claim C4, amended. For every run of the orchestration engine: if the resume-parsing
  stage raises, the run completes with status \<open>error\<close>, the message of the exception
  under \<open>error\<close>, and no \<open>matcher\<close>, no \<open>ats\<close> and no \<open>optimized_resume\<close> sub-result. If the
  optimization tool raises, the optimizer agent catches the exception and the run
  completes with status \<open>success\<close> and \<open>optimized_resume = {"error": message}\<close>; the
  matching and the scoring are stored as without the failure. With the agents of the
  repository a run whose resume is parsed always has status \<open>success\<close>, and its
  \<open>optimized_resume\<close> is never \<open>null\<close>. The engine itself turns a raise of the call
  \<open>optimizer_agent.optimize\<close> into \<open>null\<close> and status \<open>success\<close>, for any agent that does
  raise; and a raise of the call \<open>resume_agent.process\<close> into status \<open>error\<close>.
\<close>

theorem run_failure_handling:
  "(parse_resume t resume_path = Inl e \<longrightarrow>
      status (run (engine_agents t) t0 el jf saved resume_path jd_text role) = Some ''error''
      \<and> error_message (run (engine_agents t) t0 el jf saved resume_path jd_text role)
          = Some (str_error e)
      \<and> matcher (run (engine_agents t) t0 el jf saved resume_path jd_text role) = None
      \<and> ats (run (engine_agents t) t0 el jf saved resume_path jd_text role) = None
      \<and> optimized_resume (run (engine_agents t) t0 el jf saved resume_path jd_text role) = None)
   \<and> (parse_resume t resume_path = Inr r
        \<and> optimize_tools t r (jd_agent_process (analyze_jd t jd_text)) = Inl e \<longrightarrow>
      status (run (engine_agents t) t0 el jf saved resume_path jd_text role) = Some ''success''
      \<and> optimized_resume (run (engine_agents t) t0 el jf saved resume_path jd_text role)
          = Some (Some (Optimizer_error (str_error e)))
      \<and> matcher (run (engine_agents t) t0 el jf saved resume_path jd_text role)
          = Some (matcher_agent_match (match_tools t r jd_text))
      \<and> ats (run (engine_agents t) t0 el jf saved resume_path jd_text role)
          = Some (scoring_agent_score
              (score_tools t r (jd_agent_process (analyze_jd t jd_text))
                 (matcher_agent_match (match_tools t r jd_text)))))
   \<and> (parse_resume t resume_path = Inr r \<longrightarrow>
      status (run (engine_agents t) t0 el jf saved resume_path jd_text role) = Some ''success''
      \<and> optimized_resume (run (engine_agents t) t0 el jf saved resume_path jd_text role)
          \<noteq> Some None)
   \<and> (resume_agent ag resume_path = Inr r' \<and> jd_agent ag jd_text = Inr j'
        \<and> optimizer_agent ag r' j' = Inl e \<and> matcher_agent ag r' jd_text = Inr m'
        \<and> scoring_agent ag r' j' m' = Inr sc' \<longrightarrow>
      status (run ag t0 el jf saved resume_path jd_text role) = Some ''success''
      \<and> optimized_resume (run ag t0 el jf saved resume_path jd_text role) = Some None)
   \<and> (resume_agent ag resume_path = Inl e \<longrightarrow>
      status (run ag t0 el jf saved resume_path jd_text role) = Some ''error''
      \<and> matcher (run ag t0 el jf saved resume_path jd_text role) = None
      \<and> ats (run ag t0 el jf saved resume_path jd_text role) = None)"
proof (intro conjI impI)
  assume a: "parse_resume t resume_path = Inl e"
  note p = run_pipeline_engine_resume_raises [OF a]
  show "status (run (engine_agents t) t0 el jf saved resume_path jd_text role) = Some ''error''"
    by (simp add: run_def Let_def p split: option.splits sum.splits)
  show "error_message (run (engine_agents t) t0 el jf saved resume_path jd_text role)
          = Some (str_error e)"
    by (simp add: run_def Let_def p split: option.splits sum.splits)
  show "matcher (run (engine_agents t) t0 el jf saved resume_path jd_text role) = None"
    by (simp add: run_def Let_def p split: option.splits sum.splits)
  show "ats (run (engine_agents t) t0 el jf saved resume_path jd_text role) = None"
    by (simp add: run_def Let_def p split: option.splits sum.splits)
  show "optimized_resume (run (engine_agents t) t0 el jf saved resume_path jd_text role) = None"
    by (simp add: run_def Let_def p split: option.splits sum.splits)
next
  assume a: "parse_resume t resume_path = Inr r
        \<and> optimize_tools t r (jd_agent_process (analyze_jd t jd_text)) = Inl e"
  then have b: "parse_resume t resume_path = Inr r" by simp
  note p = run_pipeline_engine [OF b]
  show "status (run (engine_agents t) t0 el jf saved resume_path jd_text role) = Some ''success''"
    by (simp add: run_def Let_def p split: option.splits sum.splits)
  show "optimized_resume (run (engine_agents t) t0 el jf saved resume_path jd_text role)
          = Some (Some (Optimizer_error (str_error e)))"
    using a by (simp add: run_def Let_def p optimizer_agent_optimize_def
        split: option.splits sum.splits)
  show "matcher (run (engine_agents t) t0 el jf saved resume_path jd_text role)
          = Some (matcher_agent_match (match_tools t r jd_text))"
    by (simp add: run_def Let_def p split: option.splits sum.splits)
  show "ats (run (engine_agents t) t0 el jf saved resume_path jd_text role)
          = Some (scoring_agent_score
              (score_tools t r (jd_agent_process (analyze_jd t jd_text))
                 (matcher_agent_match (match_tools t r jd_text))))"
    by (simp add: run_def Let_def p split: option.splits sum.splits)
next
  assume b: "parse_resume t resume_path = Inr r"
  note p = run_pipeline_engine [OF b]
  show "status (run (engine_agents t) t0 el jf saved resume_path jd_text role) = Some ''success''"
    by (simp add: run_def Let_def p split: option.splits sum.splits)
  show "optimized_resume (run (engine_agents t) t0 el jf saved resume_path jd_text role)
          \<noteq> Some None"
    by (simp add: run_def Let_def p split: option.splits sum.splits)
next
  assume a: "resume_agent ag resume_path = Inr r' \<and> jd_agent ag jd_text = Inr j'
        \<and> optimizer_agent ag r' j' = Inl e \<and> matcher_agent ag r' jd_text = Inr m'
        \<and> scoring_agent ag r' j' m' = Inr sc'"
  then have p: "run_pipeline ag jf resume_path jd_text result0 =
     (result0 \<lparr> resume := Some r', jd := Some j', matcher := Some m',
                optimized_resume := Some None, ats := Some sc' \<rparr>, None)" for result0
    using run_pipeline_optimizer_raises [of ag resume_path r' jd_text j' e m' sc' jf result0]
    by blast
  show "status (run ag t0 el jf saved resume_path jd_text role) = Some ''success''"
    by (simp add: run_def Let_def p split: option.splits sum.splits)
  show "optimized_resume (run ag t0 el jf saved resume_path jd_text role) = Some None"
    by (simp add: run_def Let_def p split: option.splits sum.splits)
next
  assume a: "resume_agent ag resume_path = Inl e"
  from run_resume_raises [OF a, of t0 el jf saved jd_text role]
  show "status (run ag t0 el jf saved resume_path jd_text role) = Some ''error''"
    and "matcher (run ag t0 el jf saved resume_path jd_text role) = None"
    and "ats (run ag t0 el jf saved resume_path jd_text role) = None"
    by simp_all
qed


theorem run_failure_handling_witness:
  "status
     (run (engine_agents
            (\<lparr> parse_resume = (\<lambda>p. Inl (External ''file not found'')), analyze_jd = (\<lambda>x. Inr ()),
                match_tools = (\<lambda>r x. Inr ()), score_tools = (\<lambda>r j m. Inr ()),
                optimize_tools = (\<lambda>r j. Inr ()) \<rparr>
             :: (unit, unit, unit, unit, unit) tools))
        0 0 False None ''cv.pdf'' ''Data engineer'' None)
     = Some ''error''
   \<and> error_message
     (run (engine_agents
            (\<lparr> parse_resume = (\<lambda>p. Inl (External ''file not found'')), analyze_jd = (\<lambda>x. Inr ()),
                match_tools = (\<lambda>r x. Inr ()), score_tools = (\<lambda>r j m. Inr ()),
                optimize_tools = (\<lambda>r j. Inr ()) \<rparr>
             :: (unit, unit, unit, unit, unit) tools))
        0 0 False None ''cv.pdf'' ''Data engineer'' None)
     = Some ''file not found''
   \<and> matcher
     (run (engine_agents
            (\<lparr> parse_resume = (\<lambda>p. Inl (External ''file not found'')), analyze_jd = (\<lambda>x. Inr ()),
                match_tools = (\<lambda>r x. Inr ()), score_tools = (\<lambda>r j m. Inr ()),
                optimize_tools = (\<lambda>r j. Inr ()) \<rparr>
             :: (unit, unit, unit, unit, unit) tools))
        0 0 False None ''cv.pdf'' ''Data engineer'' None)
     = None
   \<and> ats
     (run (engine_agents
            (\<lparr> parse_resume = (\<lambda>p. Inl (External ''file not found'')), analyze_jd = (\<lambda>x. Inr ()),
                match_tools = (\<lambda>r x. Inr ()), score_tools = (\<lambda>r j m. Inr ()),
                optimize_tools = (\<lambda>r j. Inr ()) \<rparr>
             :: (unit, unit, unit, unit, unit) tools))
        0 0 False None ''cv.pdf'' ''Data engineer'' None)
     = None
   \<and> status
     (run (engine_agents
            (\<lparr> parse_resume = (\<lambda>p. Inr ()), analyze_jd = (\<lambda>x. Inr ()),
                match_tools = (\<lambda>r x. Inr ()), score_tools = (\<lambda>r j m. Inr ()),
                optimize_tools = (\<lambda>r j. Inl (External ''LLM request failed'')) \<rparr>
             :: (unit, unit, unit, unit, unit) tools))
        0 0 False None ''cv.pdf'' ''Data engineer'' None)
     = Some ''success''
   \<and> optimized_resume
     (run (engine_agents
            (\<lparr> parse_resume = (\<lambda>p. Inr ()), analyze_jd = (\<lambda>x. Inr ()),
                match_tools = (\<lambda>r x. Inr ()), score_tools = (\<lambda>r j m. Inr ()),
                optimize_tools = (\<lambda>r j. Inl (External ''LLM request failed'')) \<rparr>
             :: (unit, unit, unit, unit, unit) tools))
        0 0 False None ''cv.pdf'' ''Data engineer'' None)
     = Some (Some (Optimizer_error ''LLM request failed''))
   \<and> optimized_resume
     (run (engine_agents
            (\<lparr> parse_resume = (\<lambda>p. Inr ()), analyze_jd = (\<lambda>x. Inr ()),
                match_tools = (\<lambda>r x. Inr ()), score_tools = (\<lambda>r j m. Inr ()),
                optimize_tools = (\<lambda>r j. Inl (External ''LLM request failed'')) \<rparr>
             :: (unit, unit, unit, unit, unit) tools))
        0 0 False None ''cv.pdf'' ''Data engineer'' None)
     \<noteq> Some None
   \<and> status
     (run (\<lparr> resume_agent = (\<lambda>p. Inr ()), jd_agent = (\<lambda>x. Inr ()),
                matcher_agent = (\<lambda>r x. Inr ()), scoring_agent = (\<lambda>r j m. Inr ()),
                optimizer_agent = (\<lambda>r j. Inl (External ''cancelled'')) \<rparr>
             :: (unit, unit, unit, unit, unit) agents)
        0 0 False None ''cv.pdf'' ''Data engineer'' None)
     = Some ''success''
   \<and> optimized_resume
     (run (\<lparr> resume_agent = (\<lambda>p. Inr ()), jd_agent = (\<lambda>x. Inr ()),
                matcher_agent = (\<lambda>r x. Inr ()), scoring_agent = (\<lambda>r j m. Inr ()),
                optimizer_agent = (\<lambda>r j. Inl (External ''cancelled'')) \<rparr>
             :: (unit, unit, unit, unit, unit) agents)
        0 0 False None ''cv.pdf'' ''Data engineer'' None)
     = Some None
   \<and> status
     (run (\<lparr> resume_agent = (\<lambda>p. Inl (External ''file not found'')), jd_agent = (\<lambda>x. Inr ()),
                matcher_agent = (\<lambda>r x. Inr ()), scoring_agent = (\<lambda>r j m. Inr ()),
                optimizer_agent = (\<lambda>r j. Inr ()) \<rparr>
             :: (unit, unit, unit, unit, unit) agents)
        0 0 False None ''cv.pdf'' ''Data engineer'' None)
     = Some ''error''
   \<and> matcher
     (run (\<lparr> resume_agent = (\<lambda>p. Inl (External ''file not found'')), jd_agent = (\<lambda>x. Inr ()),
                matcher_agent = (\<lambda>r x. Inr ()), scoring_agent = (\<lambda>r j m. Inr ()),
                optimizer_agent = (\<lambda>r j. Inr ()) \<rparr>
             :: (unit, unit, unit, unit, unit) agents)
        0 0 False None ''cv.pdf'' ''Data engineer'' None)
     = None
   \<and> ats
     (run (\<lparr> resume_agent = (\<lambda>p. Inl (External ''file not found'')), jd_agent = (\<lambda>x. Inr ()),
                matcher_agent = (\<lambda>r x. Inr ()), scoring_agent = (\<lambda>r j m. Inr ()),
                optimizer_agent = (\<lambda>r j. Inr ()) \<rparr>
             :: (unit, unit, unit, unit, unit) agents)
        0 0 False None ''cv.pdf'' ''Data engineer'' None)
     = None"
proof -
  let ?T1 = "(\<lparr> parse_resume = (\<lambda>p. Inl (External ''file not found'')), analyze_jd = (\<lambda>x. Inr ()),
                match_tools = (\<lambda>r x. Inr ()), score_tools = (\<lambda>r j m. Inr ()),
                optimize_tools = (\<lambda>r j. Inr ()) \<rparr>
             :: (unit, unit, unit, unit, unit) tools)"
  let ?T2 = "(\<lparr> parse_resume = (\<lambda>p. Inr ()), analyze_jd = (\<lambda>x. Inr ()),
                match_tools = (\<lambda>r x. Inr ()), score_tools = (\<lambda>r j m. Inr ()),
                optimize_tools = (\<lambda>r j. Inl (External ''LLM request failed'')) \<rparr>
             :: (unit, unit, unit, unit, unit) tools)"
  let ?A1 = "(\<lparr> resume_agent = (\<lambda>p. Inr ()), jd_agent = (\<lambda>x. Inr ()),
                matcher_agent = (\<lambda>r x. Inr ()), scoring_agent = (\<lambda>r j m. Inr ()),
                optimizer_agent = (\<lambda>r j. Inl (External ''cancelled'')) \<rparr>
             :: (unit, unit, unit, unit, unit) agents)"
  let ?A2 = "(\<lparr> resume_agent = (\<lambda>p. Inl (External ''file not found'')), jd_agent = (\<lambda>x. Inr ()),
                matcher_agent = (\<lambda>r x. Inr ()), scoring_agent = (\<lambda>r j m. Inr ()),
                optimizer_agent = (\<lambda>r j. Inr ()) \<rparr>
             :: (unit, unit, unit, unit, unit) agents)"
  have h1: "parse_resume ?T1 ''cv.pdf'' = Inl (External ''file not found'')" by simp
  have h2: "parse_resume ?T2 ''cv.pdf'' = Inr ()
        \<and> optimize_tools ?T2 () (jd_agent_process (analyze_jd ?T2 ''Data engineer''))
            = Inl (External ''LLM request failed'')"
    by simp
  have h3: "parse_resume ?T2 ''cv.pdf'' = Inr ()" by simp
  have h4: "resume_agent ?A1 ''cv.pdf'' = Inr () \<and> jd_agent ?A1 ''Data engineer'' = Inr ()
        \<and> optimizer_agent ?A1 () () = Inl (External ''cancelled'')
        \<and> matcher_agent ?A1 () ''Data engineer'' = Inr ()
        \<and> scoring_agent ?A1 () () () = Inr ()"
    by simp
  have h5: "resume_agent ?A2 ''cv.pdf'' = Inl (External ''file not found'')" by simp
  have s: "str_error (External ''file not found'') = ''file not found''"
      "str_error (External ''LLM request failed'') = ''LLM request failed''"
    by (simp_all add: str_error_def)
  note c1 = run_failure_handling [of ?T1 "''cv.pdf''" "External ''file not found''" 0 0 False None
      "''Data engineer''" None, THEN conjunct1, rule_format, OF h1]
  note c2 = run_failure_handling [of ?T2 "''cv.pdf''" "External ''LLM request failed''" 0 0 False
      None "''Data engineer''" None "()", THEN conjunct2, THEN conjunct1, rule_format, OF h2]
  note c3 = run_failure_handling [of ?T2 "''cv.pdf''" _ 0 0 False
      None "''Data engineer''" None "()", THEN conjunct2, THEN conjunct2, THEN conjunct1,
      rule_format, OF h3]
  note c4 = run_failure_handling [of _ "''cv.pdf''" "External ''cancelled''" 0 0 False None
      "''Data engineer''" None _ ?A1 "()" "()" "()" "()",
      THEN conjunct2, THEN conjunct2, THEN conjunct2, THEN conjunct1, rule_format, OF h4]
  note c5 = run_failure_handling [of _ "''cv.pdf''" "External ''file not found''" 0 0 False None
      "''Data engineer''" None _ ?A2,
      THEN conjunct2, THEN conjunct2, THEN conjunct2, THEN conjunct2, rule_format, OF h5]
  from c1 c2 c3 c4 c5 show ?thesis
    unfolding s by simp
qed


section \<open>The display score\<close>

lemma exp_2_le: "exp (2::real) \<le> 9"
proof -
  have "exp (2::real) = exp 1 * exp 1" by (simp add: exp_add [symmetric])
  also have "\<dots> \<le> 3 * 3"
    using exp_le by (intro mult_mono) auto
  finally show ?thesis by simp
qed

lemma exp_between:
  fixes x :: real
  assumes "- 2 \<le> x" "x \<le> 2"
  shows "1 / 9 \<le> exp x" "exp x \<le> 9"
proof -
  have "exp x \<le> exp 2" using assms(2) by simp
  then show "exp x \<le> 9" using exp_2_le by (rule order_trans)
  have "exp (- x) \<le> exp 2" using assms(1) by simp
  then have "exp (- x) \<le> 9" using exp_2_le by (rule order_trans)
  then have "1 / exp x \<le> 9" by (simp add: exp_minus inverse_eq_divide)
  then have "1 \<le> 9 * exp x" by (simp add: divide_le_eq)
  then show "1 / 9 \<le> exp x" by simp
qed

lemma spec_display_score_range:
  assumes "0 \<le> raw" "raw \<le> 1"
  shows "10 \<le> spec_display_score raw" "spec_display_score raw \<le> 90"
proof -
  define x where "x = - (raw / (25 / 100) - 2)"
  have x: "- 2 \<le> x" "x \<le> 2" using assms by (simp_all add: x_def)
  note b = exp_between [OF x]
  have pos: "0 < 1 + exp x" by (simp add: add_pos_pos)
  have d: "spec_display_score raw = 100 / (1 + exp x)"
    by (simp add: spec_display_score_def x_def)
  have "10 * (1 + exp x) \<le> 100" using b(2) by simp
  then show "10 \<le> spec_display_score raw"
    unfolding d using pos by (simp add: le_divide_eq)
  have "100 \<le> 90 * (1 + exp x)" using b(1) by simp
  then show "spec_display_score raw \<le> 90"
    unfolding d using pos by (simp add: divide_le_eq)
qed

lemma max_float_ge: "9 < max_float"
  by (simp add: max_float_def)

lemma getitem_analytics:
  "getitem analytics_default_weights ''semantic'' = Inr (35 / 100)"
  "getitem analytics_default_weights ''keyword'' = Inr (30 / 100)"
  "getitem analytics_default_weights ''structure'' = Inr (20 / 100)"
  "getitem analytics_default_weights ''action'' = Inr (15 / 100)"
  by (simp_all add: getitem_def analytics_default_weights_def)

lemma analytics_raw_range:
  fixes sem kw st ac :: real
  assumes "0 \<le> sem" "sem \<le> 100" "0 \<le> kw" "kw \<le> 100" "0 \<le> st" "st \<le> 100"
    "0 \<le> ac" "ac \<le> 100"
  shows "0 \<le> sem / 100 * (35 / 100) + kw / 100 * (30 / 100) + st / 100 * (20 / 100)
              + ac / 100 * (15 / 100)"
    and "sem / 100 * (35 / 100) + kw / 100 * (30 / 100) + st / 100 * (20 / 100)
              + ac / 100 * (15 / 100) \<le> 1"
  using assms by simp_all

text \<open>
  Claim C8. The Score Fusion Engine computes no logistic transform. For the five positive
  signals at \<open>0.5\<close> and no formatting penalty the weighted raw value is \<open>0.475\<close>, whose
  logistic transform \<open>100 / (1 + e^-(0.475/0.25 - 2))\<close> lies strictly between \<open>47\<close> and
  \<open>50\<close>; the result of \<open>fuse_components\<close> holds the numbers \<open>50\<close>, \<open>0\<close>, \<open>0.5\<close>, the weights
  and their percentages, and no number in that range.
\<close>

theorem fuse_components_display_score_counterexample:
  "fuse_components half_even_rounding (1 / 2) (1 / 2) (1 / 2) (1 / 2) (1 / 2) 0 None
     = Inr \<lparr> components =
               [(''semantic'', 50), (''skills'', 50), (''keyword_density'', 50),
                (''action_verb_ratio'', 50), (''experience_relevance'', 50),
                (''formatting_penalty'', 0)],
             weights_used =
               [(''semantic'', 30 / 100), (''skills'', 30 / 100), (''keywords'', 15 / 100),
                (''action_verbs'', 8 / 100), (''experience'', 12 / 100),
                (''formatting'', - (5 / 100))],
             final_score = 50,
             final_score_norm = 1 / 2,
             explanations =
               [Semantic_contributes 30 50, Skill_fit_contributes 30 50,
                Keyword_density_contributes 15 50, Action_verbs_contribute 8 50,
                Experience_relevance_contributes 12 50, Formatting_penalty_subtracts 5 0],
             suggestions = [Add_missing_skills] \<rparr>
   \<and> raw_score default_weights (1 / 2) (1 / 2) (1 / 2) (1 / 2) (1 / 2) 0 = Inr (19 / 40)
   \<and> 47 < spec_display_score (19 / 40)
   \<and> spec_display_score (19 / 40) < 50"
proof -
  have a: "fuse_components half_even_rounding (1 / 2) (1 / 2) (1 / 2) (1 / 2) (1 / 2) 0 None
     = Inr \<lparr> components =
               [(''semantic'', 50), (''skills'', 50), (''keyword_density'', 50),
                (''action_verb_ratio'', 50), (''experience_relevance'', 50),
                (''formatting_penalty'', 0)],
             weights_used =
               [(''semantic'', 30 / 100), (''skills'', 30 / 100), (''keywords'', 15 / 100),
                (''action_verbs'', 8 / 100), (''experience'', 12 / 100),
                (''formatting'', - (5 / 100))],
             final_score = 50,
             final_score_norm = 1 / 2,
             explanations =
               [Semantic_contributes 30 50, Skill_fit_contributes 30 50,
                Keyword_density_contributes 15 50, Action_verbs_contribute 8 50,
                Experience_relevance_contributes 12 50, Formatting_penalty_subtracts 5 0],
             suggestions = [Add_missing_skills] \<rparr>"
    by code_simp
  have b: "raw_score default_weights (1 / 2) (1 / 2) (1 / 2) (1 / 2) (1 / 2) 0 = Inr (19 / 40)"
    by (simp add: raw_score_default)
  have d: "spec_display_score (19 / 40) = 100 / (1 + exp (1 / 10))"
    by (simp add: spec_display_score_def)
  have pos: "0 < 1 + exp (1 / 10 :: real)" by (simp add: add_pos_pos)
  have "exp (1 / 10 :: real) \<le> 111 / 100"
    using exp_bound [of "1 / 10 :: real"] by (simp add: power2_eq_square)
  then have "47 * (1 + exp (1 / 10 :: real)) < 100" by simp
  then have lo: "47 < spec_display_score (19 / 40)"
    unfolding d using pos by (simp add: less_divide_eq)
  have "1 < exp (1 / 10 :: real)" by simp
  then have "100 < 50 * (1 + exp (1 / 10 :: real))" by simp
  then have hi: "spec_display_score (19 / 40) < 50"
    unfolding d using pos by (simp add: divide_less_eq)
  from a b lo hi show ?thesis by (intro conjI)
qed

text \<open>
  Claim C8, amended. On every invocation of the Score Fusion Engine (\<open>fuse_components\<close>,
  default weights) only the canonical weighted-linear score is computed: \<open>final_score\<close> is
  the rounded percentage of the weighted raw value divided by \<open>0.95\<close> and clamped to
  \<open>[0, 1]\<close>, and no logistic value is computed or stored. The logistic transform
  \<open>100 / (1 + e^-(raw/0.25 - 2.0))\<close> is computed by another function,
  \<open>AnalyticsEngine.ats_score\<close>, on a raw value of its own: \<open>0.35\<close> semantic, \<open>0.30\<close> keyword
  overlap, \<open>0.20\<close> structure and \<open>0.15\<close> action verbs, each score divided by \<open>100\<close>. For
  scores in \<open>[0, 100]\<close> that call returns, its \<open>score\<close> is the rounded logistic value, and
  the logistic value lies in \<open>[10, 90]\<close>, whereas the canonical score takes every value
  from \<open>0\<close> to \<open>100\<close>.
\<close>

theorem fuse_components_linear_ats_score_logistic:
  "(\<exists>r raw. fuse_components rnd a b c d e f None = Inr r
        \<and> raw_score default_weights (clamp01 a) (clamp01 b) (clamp01 c) (clamp01 d)
              (clamp01 e) (clamp01 f) = Inr raw
        \<and> final_score_norm r = clamp01 (raw / (95 / 100))
        \<and> final_score r = rnd (clamp01 (raw / (95 / 100)) * 100) 2)
   \<and> (0 \<le> sem \<and> sem \<le> 100 \<and> 0 \<le> kw \<and> kw \<le> 100 \<and> 0 \<le> st \<and> st \<le> 100
        \<and> 0 \<le> ac \<and> ac \<le> 100 \<longrightarrow>
        (\<exists>rep. ats_score rnd st ac sem kw None = Inr rep
           \<and> report_score rep =
               rnd (spec_display_score
                      (sem / 100 * (35 / 100) + kw / 100 * (30 / 100) + st / 100 * (20 / 100)
                         + ac / 100 * (15 / 100))) 2
           \<and> 10 \<le> spec_display_score
                      (sem / 100 * (35 / 100) + kw / 100 * (30 / 100) + st / 100 * (20 / 100)
                         + ac / 100 * (15 / 100))
           \<and> spec_display_score
                      (sem / 100 * (35 / 100) + kw / 100 * (30 / 100) + st / 100 * (20 / 100)
                         + ac / 100 * (15 / 100)) \<le> 90))"
proof (intro conjI impI)
  obtain r where r: "fuse_components rnd a b c d e f None = Inr r"
      "final_score r = rnd (final_score_norm r * 100) 2"
      "final_score_norm r =
         clamp01 ((30 / 100 * clamp01 a + 30 / 100 * clamp01 b + 15 / 100 * clamp01 c
                   + 8 / 100 * clamp01 d + 12 / 100 * clamp01 e) / (95 / 100))"
    using fuse_default_final [of rnd a b c d e f] by blast
  have raw: "raw_score default_weights (clamp01 a) (clamp01 b) (clamp01 c) (clamp01 d)
              (clamp01 e) (clamp01 f)
      = Inr (30 / 100 * clamp01 a + 30 / 100 * clamp01 b + 15 / 100 * clamp01 c
                   + 8 / 100 * clamp01 d + 12 / 100 * clamp01 e)"
    by (rule raw_score_default) (rule clamp01_range)
  from r raw show "\<exists>r raw. fuse_components rnd a b c d e f None = Inr r
        \<and> raw_score default_weights (clamp01 a) (clamp01 b) (clamp01 c) (clamp01 d)
              (clamp01 e) (clamp01 f) = Inr raw
        \<and> final_score_norm r = clamp01 (raw / (95 / 100))
        \<and> final_score r = rnd (clamp01 (raw / (95 / 100)) * 100) 2"
    by auto
next
  assume h: "0 \<le> sem \<and> sem \<le> 100 \<and> 0 \<le> kw \<and> kw \<le> 100 \<and> 0 \<le> st \<and> st \<le> 100
        \<and> 0 \<le> ac \<and> ac \<le> 100"
  define raw where "raw = sem / 100 * (35 / 100) + kw / 100 * (30 / 100) + st / 100 * (20 / 100)
                         + ac / 100 * (15 / 100)"
  have rr: "0 \<le> raw" "raw \<le> 1"
    unfolding raw_def using h analytics_raw_range [of sem kw st ac] by blast+
  note range = spec_display_score_range [OF rr]
  have x: "- 2 \<le> - (raw / (25 / 100) - 2)" "- (raw / (25 / 100) - 2) \<le> 2"
    using rr by simp_all
  from exp_between(2) [OF x] max_float_ge
  have "\<not> max_float < exp (- (raw / (25 / 100) - 2))" by simp
  then have e: "math_exp (- (raw / (25 / 100) - 2)) = Inr (exp (- (raw / (25 / 100) - 2)))"
    by (simp add: math_exp_def)
  have "\<exists>rep. ats_score rnd st ac sem kw None = Inr rep
           \<and> report_score rep = rnd (spec_display_score raw) 2"
    unfolding ats_score_def Let_def option.case getitem_analytics bind_err_def sum.case
      raw_def [symmetric] e spec_display_score_def
    by simp
  with range show "\<exists>rep. ats_score rnd st ac sem kw None = Inr rep
           \<and> report_score rep =
               rnd (spec_display_score
                      (sem / 100 * (35 / 100) + kw / 100 * (30 / 100) + st / 100 * (20 / 100)
                         + ac / 100 * (15 / 100))) 2
           \<and> 10 \<le> spec_display_score
                      (sem / 100 * (35 / 100) + kw / 100 * (30 / 100) + st / 100 * (20 / 100)
                         + ac / 100 * (15 / 100))
           \<and> spec_display_score
                      (sem / 100 * (35 / 100) + kw / 100 * (30 / 100) + st / 100 * (20 / 100)
                         + ac / 100 * (15 / 100)) \<le> 90"
    unfolding raw_def by blast
qed

theorem fuse_components_linear_ats_score_logistic_witness:
  "(\<exists>rep. ats_score half_even_rounding 50 50 50 50 None = Inr rep \<and> report_score rep = 50)
   \<and> spec_display_score (1 / 2) = 50
   \<and> (\<exists>rep. ats_score half_even_rounding 0 0 0 0 None = Inr rep
         \<and> report_score rep = half_even_rounding (spec_display_score 0) 2)
   \<and> 10 \<le> spec_display_score 0
   \<and> (\<exists>r. fuse_components half_even_rounding 0 0 0 0 0 0 None = Inr r \<and> final_score r = 0)"
proof -
  have h1: "(0::real) \<le> 50 \<and> (50::real) \<le> 100 \<and> (0::real) \<le> 50 \<and> (50::real) \<le> 100
      \<and> (0::real) \<le> 50 \<and> (50::real) \<le> 100 \<and> (0::real) \<le> 50 \<and> (50::real) \<le> 100"
    by simp
  have h0: "(0::real) \<le> 0 \<and> (0::real) \<le> 100 \<and> (0::real) \<le> 0 \<and> (0::real) \<le> 100
      \<and> (0::real) \<le> 0 \<and> (0::real) \<le> 100 \<and> (0::real) \<le> 0 \<and> (0::real) \<le> 100"
    by simp
  have v: "spec_display_score (1 / 2) = 50"
    by (simp add: spec_display_score_def)
  have r1: "(50 / 100 * (35 / 100) + 50 / 100 * (30 / 100) + 50 / 100 * (20 / 100)
              + 50 / 100 * (15 / 100) :: real) = 1 / 2"
    by simp
  have r0: "(0 / 100 * (35 / 100) + 0 / 100 * (30 / 100) + 0 / 100 * (20 / 100)
              + 0 / 100 * (15 / 100) :: real) = 0"
    by simp
  note t1 = fuse_components_linear_ats_score_logistic [of half_even_rounding 0 0 0 0 0 0
      50 50 50 50, THEN conjunct2, rule_format, OF h1]
  note t0 = fuse_components_linear_ats_score_logistic [of half_even_rounding 0 0 0 0 0 0
      0 0 0 0, THEN conjunct2, rule_format, OF h0]
  note f0 = fuse_components_linear_ats_score_logistic [of half_even_rounding 0 0 0 0 0 0
      0 0 0 0, THEN conjunct1]
  have a: "\<exists>rep. ats_score half_even_rounding 50 50 50 50 None = Inr rep \<and> report_score rep = 50"
    using t1 unfolding r1 v by (auto simp: half_even_numerals)
  have b: "(\<exists>rep. ats_score half_even_rounding 0 0 0 0 None = Inr rep
         \<and> report_score rep = half_even_rounding (spec_display_score 0) 2)
       \<and> 10 \<le> spec_display_score 0"
    using t0 unfolding r0 by blast
  have c: "\<exists>r. fuse_components half_even_rounding 0 0 0 0 0 0 None = Inr r \<and> final_score r = 0"
    using f0 by (auto simp: clamp01_def raw_score_default half_even_numerals)
  from a v b c show ?thesis by blast
qed


end
